theory Spec2Isabelle
  imports Complex_Main "HOL-Library.Multiset" "HOL-Library.Log_Nat"
begin

section \<open>JavaScript values used by the admin panel\<close>

text \<open>
  The scripts of the panel keep every collection as an array of flat objects in
  localStorage and read form fields as strings.  The embedding keeps the primitive values
  of JavaScript that these objects hold.  A number is a rational, NaN or one of the two
  infinities.  The sum that \<open>generateId\<close> computes is rounded to a double, as the
  scripts compute it.  The numbers read from a string are kept as written, so there the
  model agrees with the scripts on the values a double represents exactly (in particular
  on the integers up to 2^53).  Strings are lists of 8-bit code units (Latin-1).
\<close>

datatype jsnum = NaN | NInf | Fin rat | PInf

datatype jsval = JUndefined | JNull | JBool bool | JNum jsnum | JStr string

datatype error = TypeError

text \<open>An object is a finite map from property names to values; reading a property
  that is absent yields \<open>undefined\<close>.\<close>

type_synonym obj = "string \<rightharpoonup> jsval"

definition get :: "obj \<Rightarrow> string \<Rightarrow> jsval" where
  "get r k = (case r k of None \<Rightarrow> JUndefined | Some v \<Rightarrow> v)"

subsection \<open>Numbers\<close>

fun num_less :: "jsnum \<Rightarrow> jsnum \<Rightarrow> bool" where
  "num_less NaN _ = False"
| "num_less _ NaN = False"
| "num_less NInf NInf = False"
| "num_less NInf _ = True"
| "num_less (Fin x) (Fin y) = (x < y)"
| "num_less (Fin x) PInf = True"
| "num_less (Fin x) NInf = False"
| "num_less PInf _ = False"

text \<open>\<open>==\<close> and \<open>===\<close> on two numbers: NaN is equal to nothing.\<close>

definition num_eq :: "jsnum \<Rightarrow> jsnum \<Rightarrow> bool" where
  "num_eq a b = (a \<noteq> NaN \<and> a = b)"

fun num_neg :: "jsnum \<Rightarrow> jsnum" where
  "num_neg NaN = NaN"
| "num_neg NInf = PInf"
| "num_neg PInf = NInf"
| "num_neg (Fin x) = Fin (- x)"

text \<open>
  The result of an arithmetic operation is the double (IEEE 754 binary64) nearest to the
  exact result.  With \<open>2^k\<close> the largest power of two that is not above the magnitude,
  the doubles around it are the multiples of \<open>2^e\<close>, where \<open>e\<close> is \<open>k - 52\<close> and at
  least -1074; the exact result goes to the nearest multiple, and to the even one of two
  that are equally near.  A result of magnitude \<open>2^1024\<close> or more is an infinity.  The
  sign of zero is not modelled.
\<close>

text \<open>The integer nearest to \<open>n / d\<close>, the even one of two equally near, for positive
  \<open>d\<close>.\<close>

definition round_half_even :: "int \<Rightarrow> int \<Rightarrow> int" where
  "round_half_even n d =
     (let f = n div d; r = n mod d
      in if 2 * r < d then f else if d < 2 * r then f + 1 else if even f then f else f + 1)"

text \<open>The exponent \<open>k\<close> of the largest power of two that is not above \<open>a / b\<close>, for
  positive \<open>a\<close> and \<open>b\<close>; the bit lengths of \<open>a\<close> and \<open>b\<close> give it up to one.\<close>

definition floor_log2 :: "int \<Rightarrow> int \<Rightarrow> int" where
  "floor_log2 a b =
     (let e = bitlen a - bitlen b
      in if (if 0 \<le> e then b * 2 ^ nat e \<le> a else b \<le> a * 2 ^ nat (- e)) then e else e - 1)"

text \<open>\<open>a / b\<close> rounded to a multiple of \<open>2^e\<close>.\<close>

definition round_to :: "int \<Rightarrow> int \<Rightarrow> int \<Rightarrow> rat" where
  "round_to a b e =
     (if 0 \<le> e then of_int (round_half_even a (b * 2 ^ nat e) * 2 ^ nat e)
      else of_int (round_half_even (a * 2 ^ nat (- e)) b) / 2 ^ nat (- e))"

definition to_double :: "rat \<Rightarrow> jsnum" where
  "to_double q =
     (let (a, b) = quotient_of q; m = \<bar>a\<bar>
      in if m = 0 then Fin 0
         else
           (let r = round_to m b (max (floor_log2 m b - 52) (- 1074))
            in if 2 ^ 1024 \<le> r then (if a < 0 then NInf else PInf)
               else Fin (if a < 0 then - r else r)))"

text \<open>\<open>n + 1\<close> on a number.\<close>

fun num_succ :: "jsnum \<Rightarrow> jsnum" where
  "num_succ (Fin x) = to_double (x + 1)"
| "num_succ n = n"

text \<open>One step of \<open>Math.max\<close>: NaN is contagious.\<close>

definition num_max :: "jsnum \<Rightarrow> jsnum \<Rightarrow> jsnum" where
  "num_max a b = (if a = NaN \<or> b = NaN then NaN else if num_less a b then b else a)"

subsection \<open>Characters and strings\<close>

definition code :: "char \<Rightarrow> nat" where
  "code c = of_char c"

definition is_ws :: "char \<Rightarrow> bool" where
  "is_ws c = (code c \<in> {9, 10, 11, 12, 13, 32, 160})"

definition is_digit :: "char \<Rightarrow> bool" where
  "is_digit c = (48 \<le> code c \<and> code c \<le> 57)"

definition digit_val :: "char \<Rightarrow> nat" where
  "digit_val c = code c - 48"

definition is_hex :: "char \<Rightarrow> bool" where
  "is_hex c = (is_digit c \<or> (65 \<le> code c \<and> code c \<le> 70) \<or> (97 \<le> code c \<and> code c \<le> 102))"

definition hex_val :: "char \<Rightarrow> nat" where
  "hex_val c = (if is_digit c then code c - 48
                else if code c \<le> 70 then code c - 55 else code c - 87)"

definition digits_val :: "nat \<Rightarrow> (char \<Rightarrow> nat) \<Rightarrow> string \<Rightarrow> nat" where
  "digits_val radix dv s = foldl (\<lambda>a c. radix * a + dv c) 0 s"

text \<open>\<open>String.prototype.toLowerCase\<close>.  The capital letters among the 8-bit code
  units are A to Z (65 to 90) and the accented capitals 192 to 214 and 216 to 222; a
  capital letter and its small letter differ in bit 5 of the code.  Every other code
  unit is kept.\<close>

definition lower_char :: "char \<Rightarrow> char" where
  "lower_char c =
     (if (65 \<le> code c \<and> code c \<le> 90) \<or> (192 \<le> code c \<and> code c \<le> 214)
         \<or> (216 \<le> code c \<and> code c \<le> 222)
      then (case c of Char b0 b1 b2 b3 b4 b5 b6 b7 \<Rightarrow> Char b0 b1 b2 b3 b4 True b6 b7)
      else c)"

definition toLowerCase :: "string \<Rightarrow> string" where
  "toLowerCase s = map lower_char s"

text \<open>\<open>String.prototype.trim\<close> and \<open>trimStart\<close>.\<close>

definition trimStart :: "string \<Rightarrow> string" where
  "trimStart s = dropWhile is_ws s"

definition trim :: "string \<Rightarrow> string" where
  "trim s = rev (dropWhile is_ws (rev (dropWhile is_ws s)))"

text \<open>\<open>s.includes(t)\<close>: \<open>t\<close> occurs in \<open>s\<close> as a contiguous substring.\<close>

fun starts_with :: "string \<Rightarrow> string \<Rightarrow> bool" where
  "starts_with s [] = True"
| "starts_with [] (d # t) = False"
| "starts_with (c # s) (d # t) = (c = d \<and> starts_with s t)"

fun includes_str :: "string \<Rightarrow> string \<Rightarrow> bool" where
  "includes_str [] t = (t = [])"
| "includes_str (c # s) t = (starts_with (c # s) t \<or> includes_str s t)"

text \<open>\<open>s < t\<close> on two strings: lexicographic order on the character codes.\<close>

fun str_less :: "string \<Rightarrow> string \<Rightarrow> bool" where
  "str_less [] [] = False"
| "str_less [] (d # t) = True"
| "str_less (c # s) [] = False"
| "str_less (c # s) (d # t) = (code c < code d \<or> (c = d \<and> str_less s t))"

subsection \<open>Parsing numbers\<close>

text \<open>
  The longest prefix of a string that is an unsigned decimal literal
  (\<open>Infinity\<close>, \<open>digits[.digits][e[+-]digits]\<close> or \<open>.digits[e[+-]digits]\<close>), with its
  value and the rest of the string; \<open>None\<close> when no prefix is one.
\<close>

definition scan_exponent :: "string \<Rightarrow> int \<times> string" where
  "scan_exponent s =
     (case s of
        [] \<Rightarrow> (0, s)
      | e # r \<Rightarrow>
          if e = CHR ''e'' \<or> e = CHR ''E'' then
            (let neg = (r \<noteq> [] \<and> hd r = CHR ''-'');
                 r' = (if r \<noteq> [] \<and> (hd r = CHR ''-'' \<or> hd r = CHR ''+'') then tl r else r);
                 ds = takeWhile is_digit r'
             in if ds = [] then (0, s)
                else ((if neg then - int (digits_val 10 digit_val ds)
                       else int (digits_val 10 digit_val ds)),
                      dropWhile is_digit r'))
          else (0, s))"

definition pow10 :: "int \<Rightarrow> rat" where
  "pow10 e = (if 0 \<le> e then 10 ^ nat e else 1 / 10 ^ nat (- e))"

definition scan_decimal :: "string \<Rightarrow> (jsnum \<times> string) option" where
  "scan_decimal s =
     (if starts_with s ''Infinity'' then Some (PInf, drop 8 s)
      else
        (let ip = takeWhile is_digit s;
             r1 = dropWhile is_digit s;
             dot = (r1 \<noteq> [] \<and> hd r1 = CHR ''.'');
             fp = (if dot then takeWhile is_digit (tl r1) else []);
             r2 = (if dot then dropWhile is_digit (tl r1) else r1)
         in if ip = [] \<and> fp = [] then None
            else
              (let (e, r3) = scan_exponent r2;
                   m = of_nat (digits_val 10 digit_val (ip @ fp)) / 10 ^ length fp
               in Some (Fin (m * pow10 e), r3))))"

definition signed :: "(string \<Rightarrow> jsnum) \<Rightarrow> string \<Rightarrow> jsnum" where
  "signed p s =
     (case s of
        [] \<Rightarrow> p s
      | c # r \<Rightarrow> if c = CHR ''-'' then num_neg (p r) else if c = CHR ''+'' then p r else p s)"

text \<open>\<open>parseFloat\<close> on a string.\<close>

definition parseFloat_str :: "string \<Rightarrow> jsnum" where
  "parseFloat_str s =
     signed (\<lambda>t. case scan_decimal t of None \<Rightarrow> NaN | Some (v, _) \<Rightarrow> v) (trimStart s)"

text \<open>\<open>parseInt(s, 10)\<close> and \<open>parseInt(s)\<close> on a string; without a radix a \<open>0x\<close>
  prefix selects base 16.\<close>

definition parseInt10 :: "string \<Rightarrow> jsnum" where
  "parseInt10 s =
     signed (\<lambda>t. let ds = takeWhile is_digit t
                 in if ds = [] then NaN else Fin (of_nat (digits_val 10 digit_val ds)))
            (trimStart s)"

definition parseInt :: "string \<Rightarrow> jsnum" where
  "parseInt s =
     signed (\<lambda>t. if starts_with t ''0x'' \<or> starts_with t ''0X'' then
                   (let ds = takeWhile is_hex (drop 2 t)
                    in if ds = [] then NaN else Fin (of_nat (digits_val 16 hex_val ds)))
                 else
                   (let ds = takeWhile is_digit t
                    in if ds = [] then NaN else Fin (of_nat (digits_val 10 digit_val ds))))
            (trimStart s)"

text \<open>
  \<open>Number(s)\<close> on a string: the whole trimmed string must be a numeric literal; the
  empty string is 0.  Hexadecimal, octal and binary literals take no sign.
\<close>

definition is_oct :: "char \<Rightarrow> bool" where
  "is_oct c = (48 \<le> code c \<and> code c \<le> 55)"

definition is_bin :: "char \<Rightarrow> bool" where
  "is_bin c = (code c = 48 \<or> code c = 49)"

definition radix_literal :: "string \<Rightarrow> jsnum option" where
  "radix_literal t =
     (let body = drop 2 t;
          lit = (\<lambda>ok radix dv. Some (if body \<noteq> [] \<and> list_all ok body
                                       then Fin (of_nat (digits_val radix dv body)) else NaN))
      in if starts_with t ''0x'' \<or> starts_with t ''0X'' then lit is_hex 16 hex_val
         else if starts_with t ''0o'' \<or> starts_with t ''0O'' then lit is_oct 8 digit_val
         else if starts_with t ''0b'' \<or> starts_with t ''0B'' then lit is_bin 2 digit_val
         else None)"

definition StringToNumber :: "string \<Rightarrow> jsnum" where
  "StringToNumber s =
     (let t = trim s
      in if t = [] then Fin 0
         else case radix_literal t of
                Some v \<Rightarrow> v
              | None \<Rightarrow>
                  signed (\<lambda>u. case scan_decimal u of
                                None \<Rightarrow> NaN
                              | Some (v, rest) \<Rightarrow> if rest = [] then v else NaN) t)"

subsection \<open>Conversions and operators on values\<close>

fun ToNumber :: "jsval \<Rightarrow> jsnum" where
  "ToNumber JUndefined = NaN"
| "ToNumber JNull = Fin 0"
| "ToNumber (JBool b) = Fin (if b then 1 else 0)"
| "ToNumber (JNum n) = n"
| "ToNumber (JStr s) = StringToNumber s"

definition isNaN :: "jsval \<Rightarrow> bool" where
  "isNaN v = (ToNumber v = NaN)"

text \<open>
  \<open>parseFloat(v)\<close> parses \<open>String(v)\<close>.  The string of a number parses back to that
  number; \<open>undefined\<close>, \<open>null\<close>, \<open>true\<close> and \<open>false\<close> do not start
  with a numeric literal.
\<close>

fun parseFloat :: "jsval \<Rightarrow> jsnum" where
  "parseFloat (JStr s) = parseFloat_str s"
| "parseFloat (JNum n) = n"
| "parseFloat _ = NaN"

text \<open>Truthiness, as tested by \<open>if (v)\<close>, \<open>!v\<close> and \<open>v || w\<close>.\<close>

fun truthy :: "jsval \<Rightarrow> bool" where
  "truthy JUndefined = False"
| "truthy JNull = False"
| "truthy (JBool b) = b"
| "truthy (JNum n) = (n \<noteq> NaN \<and> n \<noteq> Fin 0)"
| "truthy (JStr s) = (s \<noteq> [])"

text \<open>\<open>a === b\<close> and \<open>a == b\<close> on primitive values.\<close>

fun strict_eq :: "jsval \<Rightarrow> jsval \<Rightarrow> bool" where
  "strict_eq JUndefined JUndefined = True"
| "strict_eq JNull JNull = True"
| "strict_eq (JBool a) (JBool b) = (a = b)"
| "strict_eq (JNum a) (JNum b) = num_eq a b"
| "strict_eq (JStr a) (JStr b) = (a = b)"
| "strict_eq _ _ = False"

fun loose_eq :: "jsval \<Rightarrow> jsval \<Rightarrow> bool" where
  "loose_eq JUndefined JNull = True"
| "loose_eq JNull JUndefined = True"
| "loose_eq (JNum a) (JStr b) = num_eq a (StringToNumber b)"
| "loose_eq (JStr a) (JNum b) = num_eq (StringToNumber a) b"
| "loose_eq (JBool a) (JNum b) = num_eq (ToNumber (JBool a)) b"
| "loose_eq (JBool a) (JStr b) = num_eq (ToNumber (JBool a)) (StringToNumber b)"
| "loose_eq (JNum a) (JBool b) = num_eq a (ToNumber (JBool b))"
| "loose_eq (JStr a) (JBool b) = num_eq (StringToNumber a) (ToNumber (JBool b))"
| "loose_eq a b = strict_eq a b"

text \<open>\<open>a < b\<close> on primitive values: two strings are compared as strings, anything
  else as numbers.\<close>

fun js_less :: "jsval \<Rightarrow> jsval \<Rightarrow> bool" where
  "js_less (JStr s) (JStr t) = str_less s t"
| "js_less a b = num_less (ToNumber a) (ToNumber b)"


section \<open>The table pipeline\<close>

subsection \<open>Pagination (renderTable)\<close>

text \<open>\<open>Array.prototype.slice(start, end)\<close> on integer arguments: a negative index
  counts from the end of the array, and both indices are clamped to the array.\<close>

definition slice :: "'a list \<Rightarrow> int \<Rightarrow> int \<Rightarrow> 'a list" where
  "slice xs start fin =
     (let len = int (length xs);
          k = (if start < 0 then max (len + start) 0 else min start len);
          final = (if fin < 0 then max (len + fin) 0 else min fin len)
      in take (nat (final - k)) (drop (nat k) xs))"

text \<open>
  The pagination step of \<open>renderTable\<close> (orders.js and products.js):
  \<^verbatim>\<open>
    const totalItems = data.length;
    const startIndex = (currentPage - 1) * itemsPerPage;
    const paginatedData = data.slice(startIndex, startIndex + itemsPerPage);
  \<close>
  The result is the page and the total count handed to \<open>createPagination\<close>.
\<close>

definition paginate :: "'a list \<Rightarrow> int \<Rightarrow> int \<Rightarrow> 'a list \<times> nat" where
  "paginate data currentPage itemsPerPage =
     (let totalItems = length data;
          startIndex = (currentPage - 1) * itemsPerPage;
          paginatedData = slice data startIndex (startIndex + itemsPerPage)
      in (paginatedData, totalItems))"

text \<open>\<open>Math.ceil(totalItems / itemsPerPage)\<close> of \<open>createPagination\<close>, for a
  positive page size.\<close>

definition totalPages :: "nat \<Rightarrow> int \<Rightarrow> int" where
  "totalPages totalItems itemsPerPage = (int totalItems + itemsPerPage - 1) div itemsPerPage"

subsection \<open>Sorting (sortData)\<close>

text \<open>
  The comparator of \<open>sortData\<close> (script.js):
  \<^verbatim>\<open>
    let valA = a[column];
    let valB = b[column];
    if (!isNaN(valA) && !isNaN(valB)) {
        valA = parseFloat(valA);
        valB = parseFloat(valB);
    }
    if (typeof valA === 'string') valA = valA.toLowerCase();
    if (typeof valB === 'string') valB = valB.toLowerCase();
    if (valA < valB) return direction === 'asc' ? -1 : 1;
    if (valA > valB) return direction === 'asc' ? 1 : -1;
    return 0;
  \<close>
\<close>

fun lower_if_string :: "jsval \<Rightarrow> jsval" where
  "lower_if_string (JStr s) = JStr (toLowerCase s)"
| "lower_if_string v = v"

definition sort_keys :: "jsval \<Rightarrow> jsval \<Rightarrow> jsval \<times> jsval" where
  "sort_keys valA valB =
     (let (valA, valB) =
            (if \<not> isNaN valA \<and> \<not> isNaN valB
             then (JNum (parseFloat valA), JNum (parseFloat valB))
             else (valA, valB))
      in (lower_if_string valA, lower_if_string valB))"

definition compare_values :: "string \<Rightarrow> jsval \<Rightarrow> jsval \<Rightarrow> int" where
  "compare_values direction valA valB =
     (let (valA, valB) = sort_keys valA valB
      in if js_less valA valB then (if direction = ''asc'' then - 1 else 1)
         else if js_less valB valA then (if direction = ''asc'' then 1 else - 1)
         else 0)"

definition comparator :: "string \<Rightarrow> string \<Rightarrow> obj \<Rightarrow> obj \<Rightarrow> int" where
  "comparator column direction a b = compare_values direction (get a column) (get b column)"

text \<open>
  \<open>Array.prototype.sort(cmp)\<close> leaves the order to the sort of the engine.  The language
  standard fixes the result only when the comparator is a consistent ordering of the
  elements: then it is the sorted array, elements that compare equal in their original
  order.  For any other comparator the order is implementation-defined.

  The model is the sort of V8 (TimSort) as it runs on an array shorter than 64 elements,
  where the whole array is one run:
  \<^item> \<open>CountAndMakeRun\<close> compares the second element with the first; when it is smaller
    the run is strictly descending and is extended while each element is smaller than
    the one before it, then reversed; otherwise the run is extended while no element is
    smaller than the one before it;
  \<^item> \<open>BinaryInsertionSort\<close> places each further element (the pivot) by a binary search
    in the sorted part: \<open>Compare(pivot, work[mid]) < 0\<close> moves \<open>right\<close> to \<open>mid\<close>,
    otherwise \<open>left\<close> moves to \<open>mid + 1\<close>; the pivot goes to position \<open>left\<close>.
  An array of 64 elements or more is cut into several runs that are merged; the merging
  is not modelled, and such an array is sorted like a short one.  That gives the result
  of the engine whenever the comparator is consistent, since the sorted order that keeps
  equal elements in their original order is unique.
\<close>

fun extend_run :: "('a \<Rightarrow> 'a \<Rightarrow> int) \<Rightarrow> bool \<Rightarrow> 'a \<Rightarrow> 'a list \<Rightarrow> nat" where
  "extend_run cmp isDescending previousElement [] = 0"
| "extend_run cmp isDescending previousElement (currentElement # rest) =
     (let order = cmp currentElement previousElement
      in if (if isDescending then 0 \<le> order else order < 0) then 0
         else Suc (extend_run cmp isDescending currentElement rest))"

text \<open>The leading run, made ascending, and the elements after it.\<close>

definition countAndMakeRun :: "('a \<Rightarrow> 'a \<Rightarrow> int) \<Rightarrow> 'a list \<Rightarrow> 'a list \<times> 'a list" where
  "countAndMakeRun cmp work =
     (case work of
        elementHigh # elementLow # rest \<Rightarrow>
          (let isDescending = (cmp elementLow elementHigh < 0);
               runLength = 2 + extend_run cmp isDescending elementLow rest
           in (if isDescending then rev (take runLength work) else take runLength work,
               drop runLength work))
      | _ \<Rightarrow> (work, []))"

function binary_search :: "('a \<Rightarrow> 'a \<Rightarrow> int) \<Rightarrow> 'a \<Rightarrow> 'a list \<Rightarrow> nat \<Rightarrow> nat \<Rightarrow> nat" where
  "binary_search cmp pivot work left right =
     (if left < right then
        (let mid = left + (right - left) div 2
         in if cmp pivot (work ! mid) < 0 then binary_search cmp pivot work left mid
            else binary_search cmp pivot work (mid + 1) right)
      else left)"
  by pat_completeness auto
termination
  by (relation "measure (\<lambda>(cmp, pivot, work, left, right). right - left)") auto

declare binary_search.simps [simp del]

definition insert_pivot :: "('a \<Rightarrow> 'a \<Rightarrow> int) \<Rightarrow> 'a list \<Rightarrow> 'a \<Rightarrow> 'a list" where
  "insert_pivot cmp sorted_part pivot =
     (let left = binary_search cmp pivot sorted_part 0 (length sorted_part)
      in take left sorted_part @ pivot # drop left sorted_part)"

definition array_sort :: "('a \<Rightarrow> 'a \<Rightarrow> int) \<Rightarrow> 'a list \<Rightarrow> 'a list" where
  "array_sort cmp xs =
     (let (run, rest) = countAndMakeRun cmp xs in foldl (insert_pivot cmp) run rest)"


text \<open>\<open>sortData(data, column, direction)\<close> sorts a copy of the array.\<close>

definition sortData :: "obj list \<Rightarrow> string \<Rightarrow> string \<Rightarrow> obj list" where
  "sortData data column direction = array_sort (comparator column direction) data"

section \<open>Identifiers (generateId)\<close>

text \<open>
  \<^verbatim>\<open>
    const data = getData(dataKey) || [];
    return data.length > 0 ? Math.max(...data.map(item => item.id)) + 1 : 1;
  \<close>
  \<open>Math.max\<close> converts every argument to a number and starts from -Infinity.
\<close>

definition math_max :: "jsval list \<Rightarrow> jsnum" where
  "math_max vs = foldl (\<lambda>m v. num_max m (ToNumber v)) NInf vs"

definition generateId :: "obj list \<Rightarrow> jsnum" where
  "generateId data =
     (if length data > 0 then num_succ (math_max (map (\<lambda>item. get item ''id'') data))
      else Fin 1)"

section \<open>Filters (applyFilters, renderClientsTable)\<close>

text \<open>
  \<open>v.toLowerCase()\<close> and \<open>v.toString()\<close> on a property value.  Reading a method of
  \<open>undefined\<close> or \<open>null\<close> throws a TypeError, and so does calling \<open>toLowerCase\<close> on
  a number or a boolean, which have no such method.
\<close>

definition method_toLowerCase :: "jsval \<Rightarrow> error + string" where
  "method_toLowerCase v = (case v of JStr s \<Rightarrow> Inr (toLowerCase s) | _ \<Rightarrow> Inl TypeError)"

definition digit_char :: "nat \<Rightarrow> char" where
  "digit_char n = ''0123456789'' ! n"

function nat_digits :: "nat \<Rightarrow> string" where
  "nat_digits n = (if n < 10 then [digit_char n] else nat_digits (n div 10) @ [digit_char (n mod 10)])"
  by pat_completeness auto
termination
  by (relation "measure (\<lambda>n. n)") auto

fun frac_digits :: "nat \<Rightarrow> rat \<Rightarrow> string" where
  "frac_digits 0 f = []"
| "frac_digits (Suc k) f =
     (if f = 0 then []
      else (let d = nat \<lfloor>10 * f\<rfloor> in digit_char d # frac_digits k (10 * f - of_nat d)))"

text \<open>
  \<open>Number.prototype.toString\<close>: the decimal digits of an integer, with its sign; for
  other values the integer part, a point and up to 17 fractional digits (the exponent
  notation of very large and very small numbers is not modelled).
\<close>

definition unsigned_toString :: "rat \<Rightarrow> string" where
  "unsigned_toString q =
     (let i = nat \<lfloor>q\<rfloor>; f = q - of_nat i
      in nat_digits i @ (if f = 0 then [] else ''.'' @ frac_digits 17 f))"

fun num_toString :: "jsnum \<Rightarrow> string" where
  "num_toString NaN = ''NaN''"
| "num_toString PInf = ''Infinity''"
| "num_toString NInf = ''-Infinity''"
| "num_toString (Fin q) = (if q < 0 then ''-'' @ unsigned_toString (- q) else unsigned_toString q)"

fun method_toString :: "jsval \<Rightarrow> error + string" where
  "method_toString JUndefined = Inl TypeError"
| "method_toString JNull = Inl TypeError"
| "method_toString (JBool b) = Inr (if b then ''true'' else ''false'')"
| "method_toString (JNum n) = Inr (num_toString n)"
| "method_toString (JStr s) = Inr s"

text \<open>\<open>Array.prototype.filter\<close> with a callback that may throw: the first exception
  ends the whole call.\<close>

fun filter_throwing :: "('a \<Rightarrow> error + bool) \<Rightarrow> 'a list \<Rightarrow> error + 'a list" where
  "filter_throwing p [] = Inr []"
| "filter_throwing p (x # xs) =
     (case p x of
        Inl e \<Rightarrow> Inl e
      | Inr b \<Rightarrow> (case filter_throwing p xs of
                    Inl e \<Rightarrow> Inl e
                  | Inr ys \<Rightarrow> Inr (if b then x # ys else ys)))"

text \<open>\<open>document.getElementById(id)?.value\<close> followed by \<open>|| ''\<close>: an absent element
  counts as the empty string.\<close>

definition value_or_empty :: "string option \<Rightarrow> string" where
  "value_or_empty e = (case e of None \<Rightarrow> [] | Some s \<Rightarrow> s)"

subsection \<open>Orders (orders.js)\<close>

text \<open>
  \<^verbatim>\<open>
    const searchTerm = document.getElementById('searchInput')?.value.toLowerCase() || '';
    const statusFilter = document.getElementById('filterStatus')?.value || '';
    const paymentFilter = document.getElementById('filterPayment')?.value || '';
    return data.filter(item => {
        const matchesSearch = !searchTerm ||
            item.clientName.toLowerCase().includes(searchTerm) ||
            item.products.toLowerCase().includes(searchTerm) ||
            item.id.toString().includes(searchTerm);
        const matchesStatus = !statusFilter || item.status === statusFilter;
        const matchesPayment = !paymentFilter || item.paymentStatus === paymentFilter;
        return matchesSearch && matchesStatus && matchesPayment;
    });
  \<close>
  The three filter controls are the arguments; \<open>None\<close> is a control missing from the page.
\<close>

definition orders_matchesSearch :: "string \<Rightarrow> obj \<Rightarrow> error + bool" where
  "orders_matchesSearch searchTerm item =
     (if searchTerm = [] then Inr True
      else case method_toLowerCase (get item ''clientName'') of
             Inl e \<Rightarrow> Inl e
           | Inr clientName \<Rightarrow>
               if includes_str clientName searchTerm then Inr True
               else case method_toLowerCase (get item ''products'') of
                      Inl e \<Rightarrow> Inl e
                    | Inr products \<Rightarrow>
                        if includes_str products searchTerm then Inr True
                        else case method_toString (get item ''id'') of
                               Inl e \<Rightarrow> Inl e
                             | Inr ident \<Rightarrow> Inr (includes_str ident searchTerm))"

definition applyFilters_orders ::
    "string option \<Rightarrow> string option \<Rightarrow> string option \<Rightarrow> obj list \<Rightarrow> error + obj list" where
  "applyFilters_orders searchInput filterStatus filterPayment data =
     (let searchTerm = toLowerCase (value_or_empty searchInput);
          statusFilter = value_or_empty filterStatus;
          paymentFilter = value_or_empty filterPayment
      in filter_throwing
           (\<lambda>item. case orders_matchesSearch searchTerm item of
                      Inl e \<Rightarrow> Inl e
                    | Inr matchesSearch \<Rightarrow>
                        (let matchesStatus =
                               (statusFilter = [] \<or> strict_eq (get item ''status'') (JStr statusFilter));
                             matchesPayment =
                               (paymentFilter = [] \<or>
                                strict_eq (get item ''paymentStatus'') (JStr paymentFilter))
                         in Inr (matchesSearch \<and> matchesStatus \<and> matchesPayment)))
           data)"

subsection \<open>Products (products.js)\<close>

text \<open>
  \<^verbatim>\<open>
    const matchesSearch = !searchTerm ||
        item.name.toLowerCase().includes(searchTerm) ||
        item.supplier.toLowerCase().includes(searchTerm);
    const matchesCategory = !categoryFilter || item.category === categoryFilter;
    const matchesAvailability = availabilityFilter === '' ||
        item.available === (availabilityFilter === 'true');
  \<close>
\<close>

definition products_matchesSearch :: "string \<Rightarrow> obj \<Rightarrow> error + bool" where
  "products_matchesSearch searchTerm item =
     (if searchTerm = [] then Inr True
      else case method_toLowerCase (get item ''name'') of
             Inl e \<Rightarrow> Inl e
           | Inr name \<Rightarrow>
               if includes_str name searchTerm then Inr True
               else case method_toLowerCase (get item ''supplier'') of
                      Inl e \<Rightarrow> Inl e
                    | Inr supplier \<Rightarrow> Inr (includes_str supplier searchTerm))"

definition applyFilters_products ::
    "string option \<Rightarrow> string option \<Rightarrow> string option \<Rightarrow> obj list \<Rightarrow> error + obj list" where
  "applyFilters_products searchInput filterCategory filterAvailability data =
     (let searchTerm = toLowerCase (value_or_empty searchInput);
          categoryFilter = value_or_empty filterCategory;
          availabilityFilter = value_or_empty filterAvailability
      in filter_throwing
           (\<lambda>item. case products_matchesSearch searchTerm item of
                      Inl e \<Rightarrow> Inl e
                    | Inr matchesSearch \<Rightarrow>
                        (let matchesCategory =
                               (categoryFilter = [] \<or>
                                strict_eq (get item ''category'') (JStr categoryFilter));
                             matchesAvailability =
                               (availabilityFilter = [] \<or>
                                strict_eq (get item ''available'')
                                  (JBool (availabilityFilter = ''true'')))
                         in Inr (matchesSearch \<and> matchesCategory \<and> matchesAvailability)))
           data)"

subsection \<open>Clients (clients.js)\<close>

text \<open>
  \<^verbatim>\<open>
    const search = document.getElementById('searchInput').value.toLowerCase();
    const cityFilter = document.getElementById('filterCity').value;
    const typeFilter = document.getElementById('filterType').value;
    const filtered = clients.filter(client => {
        const matchSearch = (client.name || '').toLowerCase().includes(search) ||
                          (client.email || '').toLowerCase().includes(search);
        const matchCity = !cityFilter || client.city === cityFilter;
        const matchType = !typeFilter || client.type === typeFilter;
        return matchSearch && matchCity && matchType;
    });
  \<close>
  Here the three controls are read without \<open>?.\<close>; their values are the arguments.
\<close>

definition or_empty :: "jsval \<Rightarrow> jsval" where
  "or_empty v = (if truthy v then v else JStr [])"

definition clients_matchSearch :: "string \<Rightarrow> obj \<Rightarrow> error + bool" where
  "clients_matchSearch search client =
     (case method_toLowerCase (or_empty (get client ''name'')) of
        Inl e \<Rightarrow> Inl e
      | Inr name \<Rightarrow>
          if includes_str name search then Inr True
          else case method_toLowerCase (or_empty (get client ''email'')) of
                 Inl e \<Rightarrow> Inl e
               | Inr email \<Rightarrow> Inr (includes_str email search))"

definition renderClientsTable_filtered ::
    "string \<Rightarrow> string \<Rightarrow> string \<Rightarrow> obj list \<Rightarrow> error + obj list" where
  "renderClientsTable_filtered searchInput cityFilter typeFilter clients =
     (let search = toLowerCase searchInput
      in filter_throwing
           (\<lambda>client. case clients_matchSearch search client of
                        Inl e \<Rightarrow> Inl e
                      | Inr matchSearch \<Rightarrow>
                          (let matchCity =
                                 (cityFilter = [] \<or> strict_eq (get client ''city'') (JStr cityFilter));
                               matchType =
                                 (typeFilter = [] \<or> strict_eq (get client ''type'') (JStr typeFilter))
                           in Inr (matchSearch \<and> matchCity \<and> matchType)))
           clients)"

subsection \<open>The filter as the specification words it\<close>

text \<open>
  A record is shown when it matches every criterion that is not empty: the search term,
  as a case-insensitive substring of one of the searchable fields (for an order also of
  the decimal digits of its id), and each equality filter, as the exact value of its field.
\<close>

definition text_of :: "jsval \<Rightarrow> string" where
  "text_of v = (case v of JStr s \<Rightarrow> s | _ \<Rightarrow> [])"

definition decimal_of :: "jsval \<Rightarrow> string" where
  "decimal_of v = (case v of JNum n \<Rightarrow> num_toString n | _ \<Rightarrow> [])"

definition text_contains :: "string \<Rightarrow> string list \<Rightarrow> obj \<Rightarrow> bool" where
  "text_contains term fields r =
     (\<exists>f \<in> set fields. includes_str (toLowerCase (text_of (get r f))) (toLowerCase term))"

definition equality_matches :: "string \<Rightarrow> string \<Rightarrow> obj \<Rightarrow> bool" where
  "equality_matches wanted field r = (wanted \<noteq> [] \<longrightarrow> r field = Some (JStr wanted))"

definition order_matches :: "string \<Rightarrow> string \<Rightarrow> string \<Rightarrow> obj \<Rightarrow> bool" where
  "order_matches term status payment r =
     ((term \<noteq> [] \<longrightarrow>
         text_contains term [''clientName'', ''products''] r
         \<or> includes_str (decimal_of (get r ''id'')) (toLowerCase term))
      \<and> equality_matches status ''status'' r
      \<and> equality_matches payment ''paymentStatus'' r)"

definition product_matches :: "string \<Rightarrow> string \<Rightarrow> string \<Rightarrow> obj \<Rightarrow> bool" where
  "product_matches term category availability r =
     ((term \<noteq> [] \<longrightarrow> text_contains term [''name'', ''supplier''] r)
      \<and> equality_matches category ''category'' r
      \<and> (availability \<noteq> [] \<longrightarrow> r ''available'' = Some (JBool (availability = ''true''))))"

definition client_matches :: "string \<Rightarrow> string \<Rightarrow> string \<Rightarrow> obj \<Rightarrow> bool" where
  "client_matches term city kind r =
     ((term \<noteq> [] \<longrightarrow> text_contains term [''name'', ''email''] r)
      \<and> equality_matches city ''city'' r
      \<and> equality_matches kind ''type'' r)"

text \<open>The records of the data model: the searched fields of an order, a product and a
  client are strings, and the id of an order is a number.\<close>

definition is_string :: "jsval \<Rightarrow> bool" where
  "is_string v = (case v of JStr s \<Rightarrow> True | _ \<Rightarrow> False)"

definition is_number :: "jsval \<Rightarrow> bool" where
  "is_number v = (case v of JNum n \<Rightarrow> True | _ \<Rightarrow> False)"

definition order_record :: "obj \<Rightarrow> bool" where
  "order_record r =
     (is_string (get r ''clientName'') \<and> is_string (get r ''products'') \<and> is_number (get r ''id''))"

definition product_record :: "obj \<Rightarrow> bool" where
  "product_record r = (is_string (get r ''name'') \<and> is_string (get r ''supplier''))"

definition client_record :: "obj \<Rightarrow> bool" where
  "client_record r = (is_string (get r ''name'') \<and> is_string (get r ''email''))"

section \<open>Forms and deletion\<close>

text \<open>
  The handlers read the collection with \<open>getData\<close>, change the array and hand it to
  \<open>setData\<close> (or \<open>saveData\<close>), which stores its JSON text under the key of the
  collection.  The model of a handler takes the array read from the store and returns the
  array handed back to it.  The values of the input elements of a form are strings.
\<close>

text \<open>\<open>Array.prototype.findIndex\<close> and \<open>find\<close>: the first element that satisfies the
  callback; \<open>None\<close> stands for the index -1 and for \<open>undefined\<close>.\<close>

fun findIndex :: "('a \<Rightarrow> bool) \<Rightarrow> 'a list \<Rightarrow> nat option" where
  "findIndex p [] = None"
| "findIndex p (x # xs) = (if p x then Some 0 else map_option Suc (findIndex p xs))"

fun find_first :: "('a \<Rightarrow> bool) \<Rightarrow> 'a list \<Rightarrow> 'a option" where
  "find_first p [] = None"
| "find_first p (x # xs) = (if p x then Some x else find_first p xs)"

text \<open>\<open>arr[index] = v\<close> with the result of \<open>findIndex\<close>: at an index of the array the
  element is replaced; at -1 the assignment creates a property named \<open>-1\<close>, which is no
  element of the array and is not written to the store.\<close>

definition assign_at :: "'a list \<Rightarrow> nat option \<Rightarrow> 'a \<Rightarrow> 'a list" where
  "assign_at xs index v = (case index of None \<Rightarrow> xs | Some i \<Rightarrow> xs[i := v])"

subsection \<open>Orders (handleFormSubmit of orders.js)\<close>

text \<open>
  \<^verbatim>\<open>
    const clientId = parseInt(document.getElementById('client').value, 10);
    const clients = getData('clients') || [];
    const client = clients.find(c => c.id === clientId);
    const formData = {
        clientId: clientId,
        clientName: client ? client.name : 'Client inconnu',
        products: document.getElementById('product').value,
        quantity: parseInt(document.getElementById('quantity').value, 10),
        amount: parseFloat(document.getElementById('amount').value),
        status: document.getElementById('status').value,
        paymentStatus: document.getElementById('payment').value,
        address: document.getElementById('address').value,
        notes: document.getElementById('notes')?.value || ''
    };
    if (!formData.clientId || !formData.products || !formData.amount) { ...; return; }
    let data = getData('orders') || [];
    if (editingId) {
        const index = data.findIndex(item => item.id === editingId);
        if (index !== -1) { data[index] = { ...data[index], ...formData }; ... }
    } else {
        formData.id = generateId('orders');
        formData.createdAt = new Date().toISOString().split('T')[0];
        data.push(formData);
    }
    setData('orders', data);
  \<close>
  The fields of the record are the input elements of the form, named by their ids.
\<close>

record order_form =
  o_client :: string
  o_product :: string
  o_quantity :: string
  o_amount :: string
  o_status :: string
  o_payment :: string
  o_address :: string
  o_notes :: "string option"

definition order_formData :: "order_form \<Rightarrow> obj list \<Rightarrow> obj" where
  "order_formData form clients =
     (let clientId = parseInt10 (o_client form);
          client = find_first (\<lambda>c. strict_eq (get c ''id'') (JNum clientId)) clients
      in [''clientId'' \<mapsto> JNum clientId,
          ''clientName'' \<mapsto> (case client of Some c \<Rightarrow> get c ''name''
                                           | None \<Rightarrow> JStr ''Client inconnu''),
          ''products'' \<mapsto> JStr (o_product form),
          ''quantity'' \<mapsto> JNum (parseInt10 (o_quantity form)),
          ''amount'' \<mapsto> JNum (parseFloat_str (o_amount form)),
          ''status'' \<mapsto> JStr (o_status form),
          ''paymentStatus'' \<mapsto> JStr (o_payment form),
          ''address'' \<mapsto> JStr (o_address form),
          ''notes'' \<mapsto> JStr (value_or_empty (o_notes form))])"

definition order_form_valid :: "obj \<Rightarrow> bool" where
  "order_form_valid formData =
     (\<not> (\<not> truthy (get formData ''clientId'') \<or> \<not> truthy (get formData ''products'')
          \<or> \<not> truthy (get formData ''amount'')))"

text \<open>\<open>today\<close> is the date string of the moment of the call, \<open>editingId\<close> the page
  variable of that name.\<close>

definition handleFormSubmit_orders ::
    "order_form \<Rightarrow> obj list \<Rightarrow> string \<Rightarrow> jsval \<Rightarrow> obj list \<Rightarrow> obj list" where
  "handleFormSubmit_orders form clients today editingId data =
     (let formData = order_formData form clients
      in if \<not> order_form_valid formData then data
         else if truthy editingId then
           (case findIndex (\<lambda>item. strict_eq (get item ''id'') editingId) data of
              Some index \<Rightarrow> data[index := (data ! index) ++ formData]
            | None \<Rightarrow> data)
         else data @ [formData(''id'' \<mapsto> JNum (generateId data), ''createdAt'' \<mapsto> JStr today)])"

subsection \<open>Products (handleFormSubmit of products.js)\<close>

text \<open>
  \<^verbatim>\<open>
    const formData = {
        name: document.getElementById('name').value.trim(),
        category: document.getElementById('category').value,
        price: parseFloat(document.getElementById('price').value),
        stock: parseInt(document.getElementById('stock').value, 10),
        supplier: document.getElementById('supplier').value.trim(),
        available: document.getElementById('availability').value === 'Disponible'
    };
    if (!formData.name || !formData.category || isNaN(formData.price)) { ...; return; }
    let data = getData('products') || [];
    if (editingId) {
        const index = data.findIndex(item => item.id === editingId);
        if (index !== -1) { data[index] = { ...data[index], ...formData }; ... }
    } else {
        formData.id = generateId('products');
        data.push(formData);
    }
    setData('products', data);
  \<close>
\<close>

record product_form =
  p_name :: string
  p_category :: string
  p_price :: string
  p_stock :: string
  p_supplier :: string
  p_availability :: string

definition product_formData :: "product_form \<Rightarrow> obj" where
  "product_formData form =
     [''name'' \<mapsto> JStr (trim (p_name form)),
      ''category'' \<mapsto> JStr (p_category form),
      ''price'' \<mapsto> JNum (parseFloat_str (p_price form)),
      ''stock'' \<mapsto> JNum (parseInt10 (p_stock form)),
      ''supplier'' \<mapsto> JStr (trim (p_supplier form)),
      ''available'' \<mapsto> JBool (p_availability form = ''Disponible'')]"

definition product_form_valid :: "obj \<Rightarrow> bool" where
  "product_form_valid formData =
     (\<not> (\<not> truthy (get formData ''name'') \<or> \<not> truthy (get formData ''category'')
          \<or> isNaN (get formData ''price'')))"

definition handleFormSubmit_products :: "product_form \<Rightarrow> jsval \<Rightarrow> obj list \<Rightarrow> obj list" where
  "handleFormSubmit_products form editingId data =
     (let formData = product_formData form
      in if \<not> product_form_valid formData then data
         else if truthy editingId then
           (case findIndex (\<lambda>item. strict_eq (get item ''id'') editingId) data of
              Some index \<Rightarrow> data[index := (data ! index) ++ formData]
            | None \<Rightarrow> data)
         else data @ [formData(''id'' \<mapsto> JNum (generateId data))])"

subsection \<open>Clients (handleFormSubmit of clients.js)\<close>

text \<open>
  \<^verbatim>\<open>
    const clients = getData('clients');
    const id = document.getElementById('entityId').value;
    const clientData = {
        id: id ? parseInt(id) : generateId('clients'),
        name: ..., email: ..., phone: ..., type: ..., city: ...,
        orders: parseInt(document.getElementById('orders').value) || 0,
        address: ...
    };
    if (id) {
        const index = clients.findIndex(c => c.id == id);
        clients[index] = clientData;
    } else {
        clients.push(clientData);
    }
    saveData('clients', clients);
  \<close>
\<close>

record client_form =
  c_entityId :: string
  c_name :: string
  c_email :: string
  c_phone :: string
  c_type :: string
  c_city :: string
  c_orders :: string
  c_address :: string

definition clientData :: "client_form \<Rightarrow> obj list \<Rightarrow> obj" where
  "clientData form clients =
     [''id'' \<mapsto> JNum (if c_entityId form \<noteq> [] then parseInt (c_entityId form)
                        else generateId clients),
      ''name'' \<mapsto> JStr (c_name form),
      ''email'' \<mapsto> JStr (c_email form),
      ''phone'' \<mapsto> JStr (c_phone form),
      ''type'' \<mapsto> JStr (c_type form),
      ''city'' \<mapsto> JStr (c_city form),
      ''orders'' \<mapsto> JNum (if truthy (JNum (parseInt (c_orders form)))
                            then parseInt (c_orders form) else Fin 0),
      ''address'' \<mapsto> JStr (c_address form)]"

definition handleFormSubmit_clients :: "client_form \<Rightarrow> obj list \<Rightarrow> obj list" where
  "handleFormSubmit_clients form clients =
     (if c_entityId form \<noteq> [] then
        assign_at clients
          (findIndex (\<lambda>c. loose_eq (get c ''id'') (JStr (c_entityId form))) clients)
          (clientData form clients)
      else clients @ [clientData form clients])"

subsection \<open>Users (handleFormSubmit of users.js)\<close>

text \<open>
  \<^verbatim>\<open>
    const users = getData('users');
    const id = document.getElementById('entityId').value;
    const userData = {
        id: id ? parseInt(id) : generateId('users'),
        name: ..., email: ..., role: ..., status: ..., phone: ...,
        createdAt: id ? users.find(u => u.id == id).createdAt : new Date().toISOString()
    };
    if (id) {
        const index = users.findIndex(u => u.id == id);
        users[index] = userData;
    } else {
        users.push(userData);
    }
    saveData('users', users);
  \<close>
  Reading \<open>createdAt\<close> of the result of \<open>find\<close> throws a TypeError when no user has
  the id.
\<close>

record user_form =
  u_entityId :: string
  u_name :: string
  u_email :: string
  u_role :: string
  u_status :: string
  u_phone :: string

definition userData :: "user_form \<Rightarrow> jsnum \<Rightarrow> jsval \<Rightarrow> obj" where
  "userData form ident createdAt =
     [''id'' \<mapsto> JNum ident,
      ''name'' \<mapsto> JStr (u_name form),
      ''email'' \<mapsto> JStr (u_email form),
      ''role'' \<mapsto> JStr (u_role form),
      ''status'' \<mapsto> JStr (u_status form),
      ''phone'' \<mapsto> JStr (u_phone form),
      ''createdAt'' \<mapsto> createdAt]"

definition handleFormSubmit_users :: "user_form \<Rightarrow> string \<Rightarrow> obj list \<Rightarrow> error + obj list" where
  "handleFormSubmit_users form now users =
     (if u_entityId form \<noteq> [] then
        (case find_first (\<lambda>u. loose_eq (get u ''id'') (JStr (u_entityId form))) users of
           None \<Rightarrow> Inl TypeError
         | Some found \<Rightarrow>
             Inr (assign_at users
                    (findIndex (\<lambda>u. loose_eq (get u ''id'') (JStr (u_entityId form))) users)
                    (userData form (parseInt (u_entityId form)) (get found ''createdAt''))))
      else Inr (users @ [userData form (generateId users) (JStr now)]))"

subsection \<open>Deliveries (handleFormSubmit of deliveries.js)\<close>

text \<open>
  \<^verbatim>\<open>
    const deliveries = getData('deliveries');
    const id = document.getElementById('entityId').value;
    const deliveryData = {
        id: id ? parseInt(id) : generateId('deliveries'),
        orderId: document.getElementById('orderId').value,
        driver: document.getElementById('driver').value,
        status: document.getElementById('status').value,
        duration: document.getElementById('duration').value,
        address: document.getElementById('address').value,
        notes: document.getElementById('notes').value,
        date: id ? deliveries.find(d => d.id == id).date : new Date().toISOString()
    };
    if (id) {
        const index = deliveries.findIndex(d => d.id == id);
        deliveries[index] = deliveryData;
    } else {
        deliveries.push(deliveryData);
    }
    saveData('deliveries', deliveries);
  \<close>
\<close>

record delivery_form =
  d_entityId :: string
  d_orderId :: string
  d_driver :: string
  d_status :: string
  d_duration :: string
  d_address :: string
  d_notes :: string

definition deliveryData :: "delivery_form \<Rightarrow> jsnum \<Rightarrow> jsval \<Rightarrow> obj" where
  "deliveryData form ident date =
     [''id'' \<mapsto> JNum ident,
      ''orderId'' \<mapsto> JStr (d_orderId form),
      ''driver'' \<mapsto> JStr (d_driver form),
      ''status'' \<mapsto> JStr (d_status form),
      ''duration'' \<mapsto> JStr (d_duration form),
      ''address'' \<mapsto> JStr (d_address form),
      ''notes'' \<mapsto> JStr (d_notes form),
      ''date'' \<mapsto> date]"

definition handleFormSubmit_deliveries ::
    "delivery_form \<Rightarrow> string \<Rightarrow> obj list \<Rightarrow> error + obj list" where
  "handleFormSubmit_deliveries form now deliveries =
     (if d_entityId form \<noteq> [] then
        (case find_first (\<lambda>d. loose_eq (get d ''id'') (JStr (d_entityId form))) deliveries of
           None \<Rightarrow> Inl TypeError
         | Some found \<Rightarrow>
             Inr (assign_at deliveries
                    (findIndex (\<lambda>d. loose_eq (get d ''id'') (JStr (d_entityId form))) deliveries)
                    (deliveryData form (parseInt (d_entityId form)) (get found ''date''))))
      else Inr (deliveries @ [deliveryData form (generateId deliveries) (JStr now)]))"

subsection \<open>Deletion\<close>

text \<open>
  Orders and products delete in two steps: \<open>deleteItem(id)\<close> notes the id in the page
  variable \<open>deleteId\<close>, and \<open>confirmDelete\<close> removes the record:
  \<^verbatim>\<open>
    if (!deleteId) return;
    let data = getData('orders') || [];
    data = data.filter(item => item.id !== deleteId);
    setData('orders', data);
    ...
    deleteId = null;
  \<close>
  The state is the page variable and the stored collection.
\<close>

record delete_state =
  deleteId :: jsval
  stored :: "obj list"

definition deleteItem :: "jsval \<Rightarrow> delete_state \<Rightarrow> delete_state" where
  "deleteItem ident st = st\<lparr>deleteId := ident\<rparr>"

definition confirmDelete :: "delete_state \<Rightarrow> delete_state" where
  "confirmDelete st =
     (if \<not> truthy (deleteId st) then st
      else st\<lparr>stored := filter (\<lambda>item. \<not> strict_eq (get item ''id'') (deleteId st)) (stored st),
              deleteId := JNull\<rparr>)"

text \<open>
  Users, clients and deliveries delete after a \<open>confirm\<close> dialog:
  \<^verbatim>\<open>
    if (confirm('...')) {
        const users = getData('users');
        const newUsers = users.filter(u => u.id !== id);
        saveData('users', newUsers);
    }
  \<close>
\<close>

definition deleteUser :: "bool \<Rightarrow> jsval \<Rightarrow> obj list \<Rightarrow> obj list" where
  "deleteUser confirmed ident users =
     (if confirmed then filter (\<lambda>u. \<not> strict_eq (get u ''id'') ident) users else users)"

text \<open>The two steps in sequence, on a page with no deletion pending: the stored
  collection after \<open>deleteItem(id)\<close> and the confirmation.\<close>

definition deleteOrder :: "jsval \<Rightarrow> obj list \<Rightarrow> obj list" where
  "deleteOrder ident data =
     stored (confirmDelete (deleteItem ident \<lparr>deleteId = JNull, stored = data\<rparr>))"

section \<open>Properties\<close>

subsection \<open>Pagination\<close>

lemma slice_page:
  assumes "0 \<le> start" "0 < n"
  shows "slice xs start (start + n) = take (nat n) (drop (nat start) xs)"
proof (cases "start < int (length xs)")
  case True
  have "take (nat (min (start + n) (int (length xs)) - start)) (drop (nat start) xs)
        = take (nat n) (drop (nat start) xs)"
  proof (cases "start + n \<le> int (length xs)")
    case True
    then show ?thesis by (simp add: min_def)
  next
    case False
    then have "length (drop (nat start) xs) \<le> nat n" using assms by simp
    moreover have "length (drop (nat start) xs) \<le> nat (min (start + n) (int (length xs)) - start)"
      using False assms by (simp add: min_def)
    ultimately show ?thesis by simp
  qed
  then show ?thesis using True assms by (simp add: slice_def Let_def min_def)
next
  case False
  then show ?thesis using assms by (simp add: slice_def Let_def min_def)
qed

lemma pages_cover:
  assumes "0 < ps" "totalPages n ps < p"
  shows "int n \<le> (p - 1) * ps"
proof -
  let ?m = "int n + ps - 1"
  have "?m = ?m div ps * ps + ?m mod ps" by simp
  moreover have "?m mod ps < ps" using assms(1) by simp
  ultimately have "int n \<le> ?m div ps * ps" by linarith
  also have "\<dots> \<le> (p - 1) * ps"
    using assms by (intro mult_right_mono) (simp_all add: totalPages_def)
  finally show ?thesis .
qed

text \<open>
  Claim C1.  For a positive page size and a page number \<open>p \<ge> 1\<close>, the page shown by
  \<open>renderTable\<close> is the slice of the data that starts at the zero-based offset
  \<open>(p - 1) * pageSize\<close> and holds at most \<open>pageSize\<close> records: its \<open>i\<close>-th record is
  the record at offset \<open>(p - 1) * pageSize + i\<close> of the data.  When \<open>p\<close> is beyond the
  last page the slice is empty; the page number is not clamped.  The count handed to the
  pagination controls is the length of the data.
\<close>

theorem paginate_page:
  assumes "0 < pageSize" and "1 \<le> p"
  shows "fst (paginate data p pageSize) = take (nat pageSize) (drop (nat ((p - 1) * pageSize)) data)
    \<and> length (fst (paginate data p pageSize)) \<le> nat pageSize
    \<and> (\<forall>i < length (fst (paginate data p pageSize)).
          fst (paginate data p pageSize) ! i = data ! (nat ((p - 1) * pageSize) + i))
    \<and> (totalPages (length data) pageSize < p \<longrightarrow> fst (paginate data p pageSize) = [])
    \<and> snd (paginate data p pageSize) = length data"
proof -
  have s: "0 \<le> (p - 1) * pageSize" using assms by simp
  have eq: "fst (paginate data p pageSize) = take (nat pageSize) (drop (nat ((p - 1) * pageSize)) data)"
    using slice_page [OF s assms(1)] by (simp add: paginate_def Let_def)
  have empty: "fst (paginate data p pageSize) = []" if "totalPages (length data) pageSize < p"
  proof -
    from pages_cover [OF assms(1) that] have "length data \<le> nat ((p - 1) * pageSize)" by linarith
    then show ?thesis by (simp add: eq)
  qed
  have nth: "fst (paginate data p pageSize) ! i = data ! (nat ((p - 1) * pageSize) + i)"
    if "i < length (fst (paginate data p pageSize))" for i
  proof -
    define N where "N = nat ((p - 1) * pageSize)"
    from that have "i < length data - N" by (simp add: eq N_def)
    then have "N \<le> length data" by arith
    then have "drop N data ! i = data ! (N + i)" by simp
    then show ?thesis using that by (simp add: eq N_def)
  qed
  have len: "length (fst (paginate data p pageSize)) \<le> nat pageSize"
    by (simp add: eq)
  have tot: "snd (paginate data p pageSize) = length data"
    by (simp add: paginate_def Let_def)
  show ?thesis using eq len nth empty tot by blast
qed

theorem paginate_page_witness:
  "(0::int) < 2 \<and> (1::int) \<le> 2 \<and> fst (paginate [10, 20, 30 :: nat] 2 2) = [30]
   \<and> fst (paginate [10, 20, 30 :: nat] 3 2) = []"
  using paginate_page [of 2 2 "[10, 20, 30 :: nat]"] paginate_page [of 2 3 "[10, 20, 30 :: nat]"]
  by (simp add: totalPages_def)

subsection \<open>Sorting\<close>

lemma str_less_irrefl: "\<not> str_less s s"
  by (induction s) simp_all

lemma num_less_irrefl: "\<not> num_less n n"
  by (cases n) simp_all

lemma js_less_irrefl: "\<not> js_less v v"
  by (cases v) (simp_all add: str_less_irrefl num_less_irrefl)

lemma sort_keys_swap: "sort_keys b a = (snd (sort_keys a b), fst (sort_keys a b))"
  by (simp add: sort_keys_def)

lemma compare_values_zero_iff:
  "compare_values d a b = 0 \<longleftrightarrow>
     \<not> js_less (fst (sort_keys a b)) (snd (sort_keys a b)) \<and>
     \<not> js_less (snd (sort_keys a b)) (fst (sort_keys a b))"
  by (simp add: compare_values_def split_beta)

lemma compare_values_zero_sym: "compare_values d a b = 0 \<Longrightarrow> compare_values d b a = 0"
  by (simp add: compare_values_zero_iff sort_keys_swap [of b a])

lemma sort_keys_same: "fst (sort_keys a a) = snd (sort_keys a a)"
  by (simp add: sort_keys_def)

lemma compare_values_refl: "compare_values d a a = 0"
  by (simp add: compare_values_zero_iff sort_keys_same js_less_irrefl)

lemma comparator_zero_sym: "comparator c d a b = 0 \<Longrightarrow> comparator c d b a = 0"
  by (simp add: comparator_def compare_values_zero_sym)

lemma comparator_refl: "comparator c d a a = 0"
  by (simp add: comparator_def compare_values_refl)

subsubsection \<open>Consistent comparators\<close>









subsubsection \<open>The sort\<close>

lemma binary_search_bounds:
  "left \<le> right \<Longrightarrow> left \<le> binary_search cmp pivot work left right
     \<and> binary_search cmp pivot work left right \<le> right"
proof (induction cmp pivot work left right rule: binary_search.induct)
  case (1 cmp pivot work left right)
  show ?case
  proof (cases "left < right")
    case False
    then have "binary_search cmp pivot work left right = left"
      by (subst binary_search.simps) simp
    with "1.prems" show ?thesis by simp
  next
    case True
    define mid where "mid = left + (right - left) div 2"
    from True have mid: "left \<le> mid" "mid < right" by (simp_all add: mid_def) 
    show ?thesis
    proof (cases "cmp pivot (work ! mid) < 0")
      case less: True
      from "1.IH"(1) [OF True mid_def less] mid
      have "left \<le> binary_search cmp pivot work left mid \<and> binary_search cmp pivot work left mid \<le> mid"
        by simp
      then show ?thesis
        using True less mid
        by (simp add: binary_search.simps [of cmp pivot work left right] mid_def [symmetric])
    next
      case geq: False
      from "1.IH"(2) [OF True mid_def geq] mid
      have "mid + 1 \<le> binary_search cmp pivot work (mid + 1) right
          \<and> binary_search cmp pivot work (mid + 1) right \<le> right"
        by simp
      then show ?thesis
        using True geq mid
        by (simp add: binary_search.simps [of cmp pivot work left right] mid_def [symmetric])
    qed
  qed
qed


lemma mset_insert_pivot: "mset (insert_pivot cmp acc x) = add_mset x (mset acc)"
proof -
  have "mset (take n acc @ x # drop n acc) = add_mset x (mset (take n acc @ drop n acc))" for n
    by (simp del: append_take_drop_id)
  then show ?thesis by (simp add: insert_pivot_def Let_def)
qed






lemma countAndMakeRun_shape:
  "\<exists>n desc. countAndMakeRun cmp xs
      = (if desc then rev (take n xs) else take n xs, drop n xs)"
proof (cases xs)
  case Nil
  then have "countAndMakeRun cmp xs = (if False then rev (take 0 xs) else take 0 xs, drop 0 xs)"
    by (simp add: countAndMakeRun_def)
  then show ?thesis by blast
next
  case (Cons high rest)
  show ?thesis
  proof (cases rest)
    case Nil
    with Cons
    have "countAndMakeRun cmp xs = (if False then rev (take 1 xs) else take 1 xs, drop 1 xs)"
      by (simp add: countAndMakeRun_def)
    then show ?thesis by blast
  next
    case (Cons low rest')
    with \<open>xs = high # rest\<close>
    have "countAndMakeRun cmp xs =
       (if cmp low high < 0
        then rev (take (2 + extend_run cmp (cmp low high < 0) low rest') xs)
        else take (2 + extend_run cmp (cmp low high < 0) low rest') xs,
        drop (2 + extend_run cmp (cmp low high < 0) low rest') xs)"
      by (simp add: countAndMakeRun_def Let_def)
    then show ?thesis by blast
  qed
qed

lemma countAndMakeRun_mset:
  assumes "countAndMakeRun cmp xs = (run, rest)"
  shows "mset run + mset rest = mset xs"
proof -
  from countAndMakeRun_shape [of cmp xs] assms obtain n desc where
    "run = (if desc then rev (take n xs) else take n xs)" "rest = drop n xs" by auto
  moreover have "mset (take n xs) + mset (drop n xs) = mset xs"
    using mset_append [of "take n xs" "drop n xs"] by simp
  ultimately show ?thesis by simp
qed

lemma mset_array_sort: "mset (array_sort cmp xs) = mset xs"
proof -
  have f: "mset (foldl (insert_pivot cmp) acc rest) = mset acc + mset rest" for acc rest
    by (induction rest arbitrary: acc) (simp_all add: mset_insert_pivot)
  obtain run rest where r: "countAndMakeRun cmp xs = (run, rest)" by (cases "countAndMakeRun cmp xs")
  then show ?thesis by (simp add: array_sort_def f countAndMakeRun_mset [OF r])
qed

lemma set_array_sort: "set (array_sort cmp xs) = set xs"
  using arg_cong [OF mset_array_sort, of set_mset cmp xs] by simp





















subsubsection \<open>The comparator on values\<close>

lemma num_less_NaN_right: "\<not> num_less n NaN"
  by (cases n) simp_all

lemma js_less_undefined: "\<not> js_less JUndefined v" "\<not> js_less v JUndefined"
  by (cases v; simp add: num_less_NaN_right)+

lemma numeric_literals:
  "StringToNumber ''10'' = Fin 10" "StringToNumber ''2'' = Fin 2" "StringToNumber ''1'' = Fin 1"
  "parseFloat_str ''10'' = Fin 10" "parseFloat_str ''2'' = Fin 2" "parseFloat_str ''1'' = Fin 1"
  by code_simp+

lemma word_literals:
  "StringToNumber ''b10'' = NaN" "StringToNumber ''b2'' = NaN" "StringToNumber ''b1'' = NaN"
  "StringToNumber ''a'' = NaN" "StringToNumber '''' = Fin 0"
  by code_simp+

lemmas char_simps = toLowerCase_def lower_char_def code_def

text \<open>An accented capital is lowered, the multiplication sign (215), which lies among
  the accented capitals, is not.\<close>

lemma toLowerCase_accented:
  "toLowerCase [CHR 0xC9, CHR ''T'', CHR 0xC9] = [CHR 0xE9, CHR ''t'', CHR 0xE9]"
  "toLowerCase [CHR 0xD7] = [CHR 0xD7]"
  by (simp_all add: char_simps)

text \<open>
  Claim C4 says that the comparator works numerically when both values parse as numbers
  and by case-insensitive string order otherwise, and that the strings 10, 2, 1 sort to
  1, 2, 10 as a numeric field and to 1, 10, 2 as a non-numeric field.  The comparator has
  no notion of the kind of a field: it decides by the two values alone, so the same three
  strings sort to 1, 2, 10 under every column and never to 1, 10, 2.
\<close>

theorem sortData_field_mode_counterexample:
  "map (\<lambda>r. get r ''ref'')
     (sortData [[''ref'' \<mapsto> JStr ''10''], [''ref'' \<mapsto> JStr ''2''], [''ref'' \<mapsto> JStr ''1'']]
        ''ref'' ''asc'')
   = [JStr ''1'', JStr ''2'', JStr ''10'']
   \<and> map (\<lambda>r. get r ''ref'')
     (sortData [[''ref'' \<mapsto> JStr ''10''], [''ref'' \<mapsto> JStr ''2''], [''ref'' \<mapsto> JStr ''1'']]
        ''ref'' ''asc'')
   \<noteq> [JStr ''1'', JStr ''10'', JStr ''2'']"
  by (simp add: sortData_def array_sort_def countAndMakeRun_def insert_pivot_def
        binary_search.simps comparator_def compare_values_def sort_keys_def
        get_def isNaN_def numeric_literals)

text \<open>
  Claim C4, amended.  When both values pass \<open>!isNaN\<close> the comparator compares their
  \<open>parseFloat\<close> values as numbers; when both are strings and at least one fails
  \<open>!isNaN\<close> it compares the lower-cased strings in lexicographic order; the direction
  \<open>asc\<close> gives -1 for smaller and 1 for larger, any other direction the opposite.
  So the strings 10, 2, 1 sort ascending to 1, 2, 10 under any column, and the
  non-numeric strings b10, b2, b1 sort ascending to the lexicographic b1, b10, b2.
\<close>

theorem comparator_by_value:
  "(\<not> isNaN va \<and> \<not> isNaN vb \<longrightarrow>
      compare_values direction va vb =
        (if num_less (parseFloat va) (parseFloat vb) then (if direction = ''asc'' then - 1 else 1)
         else if num_less (parseFloat vb) (parseFloat va) then (if direction = ''asc'' then 1 else - 1)
         else 0))
   \<and> (isNaN (JStr s) \<or> isNaN (JStr t) \<longrightarrow>
      compare_values direction (JStr s) (JStr t) =
        (if str_less (toLowerCase s) (toLowerCase t) then (if direction = ''asc'' then - 1 else 1)
         else if str_less (toLowerCase t) (toLowerCase s) then (if direction = ''asc'' then 1 else - 1)
         else 0))
   \<and> sortData [[column \<mapsto> JStr ''10''], [column \<mapsto> JStr ''2''], [column \<mapsto> JStr ''1'']]
        column ''asc''
      = [[column \<mapsto> JStr ''1''], [column \<mapsto> JStr ''2''], [column \<mapsto> JStr ''10'']]
   \<and> sortData [[column \<mapsto> JStr ''b10''], [column \<mapsto> JStr ''b2''], [column \<mapsto> JStr ''b1'']]
        column ''asc''
      = [[column \<mapsto> JStr ''b1''], [column \<mapsto> JStr ''b10''], [column \<mapsto> JStr ''b2'']]"
proof (intro conjI impI)
  assume "\<not> isNaN va \<and> \<not> isNaN vb"
  then show "compare_values direction va vb =
        (if num_less (parseFloat va) (parseFloat vb) then (if direction = ''asc'' then - 1 else 1)
         else if num_less (parseFloat vb) (parseFloat va) then (if direction = ''asc'' then 1 else - 1)
         else 0)"
    by (simp add: compare_values_def sort_keys_def)
next
  assume "isNaN (JStr s) \<or> isNaN (JStr t)"
  then show "compare_values direction (JStr s) (JStr t) =
        (if str_less (toLowerCase s) (toLowerCase t) then (if direction = ''asc'' then - 1 else 1)
         else if str_less (toLowerCase t) (toLowerCase s) then (if direction = ''asc'' then 1 else - 1)
         else 0)"
    by (auto simp add: compare_values_def sort_keys_def)
next
  show "sortData [[column \<mapsto> JStr ''10''], [column \<mapsto> JStr ''2''], [column \<mapsto> JStr ''1'']]
        column ''asc''
      = [[column \<mapsto> JStr ''1''], [column \<mapsto> JStr ''2''], [column \<mapsto> JStr ''10'']]"
    by (simp add: sortData_def array_sort_def countAndMakeRun_def insert_pivot_def
        binary_search.simps comparator_def compare_values_def sort_keys_def
        get_def isNaN_def numeric_literals)
next
  show "sortData [[column \<mapsto> JStr ''b10''], [column \<mapsto> JStr ''b2''], [column \<mapsto> JStr ''b1'']]
        column ''asc''
      = [[column \<mapsto> JStr ''b1''], [column \<mapsto> JStr ''b10''], [column \<mapsto> JStr ''b2'']]"
    by (simp add: sortData_def array_sort_def countAndMakeRun_def insert_pivot_def
        binary_search.simps comparator_def compare_values_def sort_keys_def
        get_def isNaN_def word_literals char_simps)
qed

theorem comparator_by_value_witness:
  "\<not> isNaN (JStr ''10'') \<and> \<not> isNaN (JNum (Fin 2))
   \<and> compare_values ''asc'' (JStr ''10'') (JNum (Fin 2)) = 1
   \<and> isNaN (JStr ''a'')
   \<and> compare_values ''desc'' (JStr ''a'') (JStr ''B'') = 1"
  using comparator_by_value [of "JStr ''10''" "JNum (Fin 2)" "''asc''" "''a''" "''B''"]
    comparator_by_value [of "JStr ''10''" "JNum (Fin 2)" "''desc''" "''a''" "''B''"]
  by (simp add: isNaN_def numeric_literals word_literals char_simps)

text \<open>
  Claim C5 says that no stage of the pipeline throws on malformed records, that a value
  that does not parse as a number falls back to string comparison, and that a record
  whose sort field is missing compares as if the field were the empty string.  A missing
  field does not compare as the empty string: against the name \<open>a\<close> the record without
  a name compares equal (0), the record with the empty name compares smaller (-1).
\<close>

theorem comparator_missing_field_counterexample:
  "comparator ''name'' ''asc'' [''id'' \<mapsto> JNum (Fin 1)]
      [''id'' \<mapsto> JNum (Fin 2), ''name'' \<mapsto> JStr ''a''] = 0
   \<and> comparator ''name'' ''asc'' [''id'' \<mapsto> JNum (Fin 1), ''name'' \<mapsto> JStr '''']
      [''id'' \<mapsto> JNum (Fin 2), ''name'' \<mapsto> JStr ''a''] = - 1"
  by (simp add: comparator_def compare_values_def sort_keys_def get_def isNaN_def
      word_literals char_simps)

lemma compare_values_undefined:
  "compare_values d JUndefined v = 0" "compare_values d v JUndefined = 0"
  by (simp_all add: compare_values_def sort_keys_def isNaN_def js_less_undefined num_less_NaN_right)

text \<open>
  Claim C5, amended.  The comparator is defined on every pair of records: a record whose
  sort field is missing compares equal to every record, in both argument orders; a
  string that is not numeric is compared with another string by the lexicographic order
  of the lower-cased strings.  \<open>sortData\<close> returns a permutation of any input, and the
  pagination step returns a contiguous part of the data for any page number and size.
\<close>

theorem comparator_malformed:
  "(a column = None \<longrightarrow>
      comparator column direction a b = 0 \<and> comparator column direction b a = 0)
   \<and> (get a column = JStr s \<and> get b column = JStr t \<and> isNaN (JStr s) \<longrightarrow>
      comparator column direction a b =
        (if str_less (toLowerCase s) (toLowerCase t) then (if direction = ''asc'' then - 1 else 1)
         else if str_less (toLowerCase t) (toLowerCase s) then (if direction = ''asc'' then 1 else - 1)
         else 0))
   \<and> mset (sortData data column direction) = mset data
   \<and> (\<exists>k n. fst (paginate data page perPage) = take n (drop k data))"
proof (intro conjI impI)
  assume "a column = None"
  then have "get a column = JUndefined" by (simp add: get_def)
  then show "comparator column direction a b = 0" "comparator column direction b a = 0"
    by (simp_all add: comparator_def compare_values_undefined)
next
  assume "get a column = JStr s \<and> get b column = JStr t \<and> isNaN (JStr s)"
  then show "comparator column direction a b =
        (if str_less (toLowerCase s) (toLowerCase t) then (if direction = ''asc'' then - 1 else 1)
         else if str_less (toLowerCase t) (toLowerCase s) then (if direction = ''asc'' then 1 else - 1)
         else 0)"
    by (simp add: comparator_def compare_values_def sort_keys_def)
next
  show "mset (sortData data column direction) = mset data"
    by (simp add: sortData_def mset_array_sort)
next
  show "\<exists>k n. fst (paginate data page perPage) = take n (drop k data)"
    unfolding paginate_def slice_def Let_def fst_conv by blast
qed

theorem comparator_malformed_witness:
  "comparator ''name'' ''asc'' [''id'' \<mapsto> JNum (Fin 1)]
      [''id'' \<mapsto> JNum (Fin 2), ''name'' \<mapsto> JStr ''a''] = 0
   \<and> comparator ''name'' ''asc'' [''id'' \<mapsto> JNum (Fin 2), ''name'' \<mapsto> JStr ''a'']
      [''id'' \<mapsto> JNum (Fin 1)] = 0
   \<and> isNaN (JStr ''b10'')
   \<and> comparator ''name'' ''desc'' [''name'' \<mapsto> JStr ''b10''] [''name'' \<mapsto> JStr ''b2''] = 1"
  using comparator_malformed [of "[''id'' \<mapsto> JNum (Fin 1)]" "''name''" "''asc''"
      "[''id'' \<mapsto> JNum (Fin 2), ''name'' \<mapsto> JStr ''a'']"]
    comparator_malformed [of "[''name'' \<mapsto> JStr ''b10'']" "''name''" "''desc''"
      "[''name'' \<mapsto> JStr ''b2'']" "''b10''" "''b2''"]
  by (simp add: get_def isNaN_def word_literals char_simps)

subsection \<open>Identifiers\<close>

lemma foldl_max_fin:
  assumes "\<forall>v\<in>set vs. \<exists>q. v = JNum (Fin q)"
  shows "\<exists>m. foldl (\<lambda>m v. num_max m (ToNumber v)) (Fin a) vs = Fin m \<and> a \<le> m
           \<and> (m = a \<or> JNum (Fin m) \<in> set vs) \<and> (\<forall>q. JNum (Fin q) \<in> set vs \<longrightarrow> q \<le> m)"
  using assms
proof (induction vs arbitrary: a)
  case Nil
  then show ?case by simp
next
  case (Cons v vs)
  then obtain q where v: "v = JNum (Fin q)" by auto
  have step: "num_max (Fin a) (ToNumber v) = Fin (max a q)"
    by (simp add: v num_max_def max_def)
  from Cons.prems have "\<forall>v\<in>set vs. \<exists>q. v = JNum (Fin q)" by simp
  from Cons.IH [OF this, of "max a q"] obtain m where
    m: "foldl (\<lambda>m v. num_max m (ToNumber v)) (Fin (max a q)) vs = Fin m" "max a q \<le> m"
       "m = max a q \<or> JNum (Fin m) \<in> set vs" "\<forall>q. JNum (Fin q) \<in> set vs \<longrightarrow> q \<le> m"
    by blast
  have "foldl (\<lambda>m v. num_max m (ToNumber v)) (Fin a) (v # vs) = Fin m"
    by (simp add: step m(1))
  moreover have "a \<le> m" using m(2) by simp
  moreover have "m = a \<or> JNum (Fin m) \<in> set (v # vs)"
    using m(3) by (auto simp: v max_def split: if_splits)
  moreover have "\<forall>q'. JNum (Fin q') \<in> set (v # vs) \<longrightarrow> q' \<le> m"
    using m(2,4) by (auto simp: v)
  ultimately show ?case by blast
qed

lemma math_max_fin:
  assumes "vs \<noteq> []" "\<forall>v\<in>set vs. \<exists>q. v = JNum (Fin q)"
  shows "\<exists>m. math_max vs = Fin m \<and> JNum (Fin m) \<in> set vs \<and> (\<forall>q. JNum (Fin q) \<in> set vs \<longrightarrow> q \<le> m)"
proof -
  from assms obtain v ws q where vs: "vs = v # ws" and v: "v = JNum (Fin q)"
    by (cases vs) auto
  have first: "num_max NInf (ToNumber v) = Fin q" by (simp add: v num_max_def)
  from assms(2) have "\<forall>v\<in>set ws. \<exists>q. v = JNum (Fin q)" by (simp add: vs)
  from foldl_max_fin [OF this, of q] obtain m where
    m: "foldl (\<lambda>m v. num_max m (ToNumber v)) (Fin q) ws = Fin m" "q \<le> m"
       "m = q \<or> JNum (Fin m) \<in> set ws" "\<forall>q. JNum (Fin q) \<in> set ws \<longrightarrow> q \<le> m"
    by blast
  have "math_max vs = Fin m" by (simp add: math_max_def vs first m(1))
  moreover have "JNum (Fin m) \<in> set vs" using m(3) by (auto simp: vs v)
  moreover have "\<forall>q'. JNum (Fin q') \<in> set vs \<longrightarrow> q' \<le> m" using m(2,4) by (auto simp: vs v)
  ultimately show ?thesis by blast
qed

lemma round_half_even_one: "round_half_even n 1 = n"
  by (simp add: round_half_even_def)

lemma floor_log2_int:
  assumes "0 < m"
  shows "floor_log2 m 1 = bitlen m - 1"
proof -
  have b1: "bitlen 1 = 1" by (simp add: bitlen_alt_def)
  from assms have "1 \<le> bitlen m" by (auto simp add: bitlen_alt_def)
  moreover from bitlen_bounds [OF assms] have "2 ^ nat (bitlen m - 1) \<le> m" by simp
  ultimately show ?thesis by (simp add: floor_log2_def b1)
qed

lemma round_to_int:
  assumes pos: "0 < m" and le: "m \<le> 2 ^ 53"
  shows "round_to m 1 (max (floor_log2 m 1 - 52) (- 1074)) = of_int m"
proof -
  define k where "k = bitlen m - 1"
  from bitlen_bounds [OF pos] have low: "2 ^ nat k \<le> m" by (simp add: k_def)
  from pos have k0: "0 \<le> k" by (auto simp add: k_def bitlen_alt_def)
  have k53: "k \<le> 53"
  proof (rule ccontr)
    assume "\<not> k \<le> 53"
    then have "54 \<le> nat k" by simp
    then have "(2::int) ^ 54 \<le> 2 ^ nat k" by (rule power_increasing) simp
    with low le show False by simp
  qed
  define e where "e = k - 52"
  have e: "max (floor_log2 m 1 - 52) (- 1074) = e"
    using k0 by (simp add: floor_log2_int [OF pos] e_def k_def)
  have "round_to m 1 e = of_int m"
  proof (cases "0 \<le> e")
    case False
    then show ?thesis by (simp add: round_to_def round_half_even_one)
  next
    case True
    show ?thesis
    proof (cases "e = 0")
      case True
      then show ?thesis by (simp add: round_to_def round_half_even_one)
    next
      case False
      with True k53 have e1: "e = 1" "k = 53" by (simp_all add: e_def)
      with low le have m: "m = 2 ^ 53" by simp
      show ?thesis by (simp add: round_to_def e1 m round_half_even_def)
    qed
  qed
  with e show ?thesis by simp
qed

lemma to_double_int:
  assumes "\<bar>z\<bar> \<le> 2 ^ 53"
  shows "to_double (of_int z) = Fin (of_int z)"
proof -
  have big: "(2::rat) ^ 53 < 2 ^ 1024" by (rule power_strict_increasing) simp_all
  consider "z = 0" | "0 < z" | "z < 0" by linarith
  then show ?thesis
  proof cases
    case 1
    then show ?thesis by (simp add: to_double_def)
  next
    case 2
    with assms have le: "z \<le> 2 ^ 53" by simp
    note r = round_to_int [OF 2 le]
    from le have "rat_of_int z \<le> of_int (2 ^ 53)" by (simp only: of_int_le_iff)
    with big have small: "\<not> (2::rat) ^ 1024 \<le> rat_of_int z" by simp
    from 2 have a: "\<bar>z\<bar> = z" by simp
    show ?thesis
      unfolding to_double_def quotient_of_int prod.case Let_def a r
      using 2 small by (simp add: r)
  next
    case 3
    with assms have le: "- z \<le> 2 ^ 53" by simp
    from 3 have pos: "0 < - z" by simp
    note r = round_to_int [OF pos le]
    from le have "rat_of_int (- z) \<le> of_int (2 ^ 53)" by (simp only: of_int_le_iff)
    with big have small: "\<not> (2::rat) ^ 1024 \<le> rat_of_int (- z)" by simp
    from 3 have a: "\<bar>z\<bar> = - z" by simp
    show ?thesis
      unfolding to_double_def quotient_of_int prod.case Let_def a r
      using 3 small by (simp add: r)
  qed
qed

lemma num_succ_int:
  assumes "\<bar>z + 1\<bar> \<le> 2 ^ 53"
  shows "num_succ (Fin (of_int z)) = Fin (of_int z + 1)"
  using to_double_int [OF assms] by simp

lemma to_double_literals:
  "to_double 2 = Fin 2" "to_double 4 = Fin 4" "to_double 8 = Fin 8"
  using to_double_int [of 2] to_double_int [of 4] to_double_int [of 8] by simp_all

text \<open>
  Claim C6 says that the allocator returns the largest id plus 1 for every collection,
  an id strictly greater than every existing one.  The sum is a double: when the largest
  id is 2^53 = 9007199254740992, the exact sum lies halfway between two doubles and is
  rounded to the even one, 2^53 again, so the allocator returns an id that is already in
  the collection.
\<close>

theorem generateId_rounding_counterexample:
  "generateId [[''id'' \<mapsto> JNum (Fin 9007199254740992)]] = Fin 9007199254740992
   \<and> \<not> num_less (Fin 9007199254740992)
         (generateId [[''id'' \<mapsto> JNum (Fin 9007199254740992)]])"
proof -
  have r: "to_double 9007199254740993 = Fin 9007199254740992" by code_simp
  have "generateId [[''id'' \<mapsto> JNum (Fin 9007199254740992)]] = Fin 9007199254740992"
    by (simp add: generateId_def math_max_def num_max_def get_def r)
  then show ?thesis by simp
qed

text \<open>
  Claim C6, amended.  On a collection whose ids are integers of magnitude below 2^53,
  \<open>generateId\<close> returns 1 when the collection is empty and otherwise \<open>m + 1\<close>, where \<open>m\<close>
  is the id of some record and no record has a larger id.  Every existing id is strictly
  smaller than the returned id and different from it.  On the collection of the ids 1
  and 3 it returns 4.
\<close>

theorem generateId_next:
  assumes "\<forall>r\<in>set data. \<exists>z::int. get r ''id'' = JNum (Fin (of_int z)) \<and> \<bar>z\<bar> < 2 ^ 53"
  shows "(data = [] \<longrightarrow> generateId data = Fin 1)
    \<and> (data \<noteq> [] \<longrightarrow>
         (\<exists>m. generateId data = Fin (m + 1)
             \<and> (\<exists>r\<in>set data. get r ''id'' = JNum (Fin m))
             \<and> (\<forall>r\<in>set data. \<forall>q. get r ''id'' = JNum (Fin q) \<longrightarrow> q \<le> m)))
    \<and> (\<forall>r\<in>set data. num_less (ToNumber (get r ''id'')) (generateId data)
                       \<and> get r ''id'' \<noteq> JNum (generateId data))
    \<and> generateId [[''id'' \<mapsto> JNum (Fin 1)], [''id'' \<mapsto> JNum (Fin 3)]] = Fin 4"
proof -
  have e: "data = [] \<longrightarrow> generateId data = Fin 1" by (simp add: generateId_def)
  have n: "\<exists>m. generateId data = Fin (m + 1)
             \<and> (\<exists>r\<in>set data. get r ''id'' = JNum (Fin m))
             \<and> (\<forall>r\<in>set data. \<forall>q. get r ''id'' = JNum (Fin q) \<longrightarrow> q \<le> m)" if ne: "data \<noteq> []"
  proof -
    let ?vs = "map (\<lambda>item. get item ''id'') data"
    have "?vs \<noteq> []" using ne by simp
    moreover have "\<forall>v\<in>set ?vs. \<exists>q. v = JNum (Fin q)" using assms by auto
    ultimately obtain m where m: "math_max ?vs = Fin m" "JNum (Fin m) \<in> set ?vs"
        "\<forall>q. JNum (Fin q) \<in> set ?vs \<longrightarrow> q \<le> m"
      using math_max_fin by blast
    from m(2) obtain r where r: "r \<in> set data" "get r ''id'' = JNum (Fin m)" by auto
    with assms obtain z :: int where z: "m = of_int z" "\<bar>z\<bar> < 2 ^ 53" by fastforce
    from z(2) have "\<bar>z + 1\<bar> \<le> 2 ^ 53" by simp
    then have "num_succ (Fin (of_int z)) = Fin (of_int z + 1)" by (rule num_succ_int)
    then have "generateId data = Fin (m + 1)" using ne by (simp add: generateId_def m(1) z(1))
    moreover have "\<exists>r\<in>set data. get r ''id'' = JNum (Fin m)" using r by blast
    moreover have "\<forall>r\<in>set data. \<forall>q. get r ''id'' = JNum (Fin q) \<longrightarrow> q \<le> m"
    proof (intro ballI allI impI)
      fix r q assume "r \<in> set data" "get r ''id'' = JNum (Fin q)"
      then have "JNum (Fin q) \<in> set ?vs" by force
      with m(3) show "q \<le> m" by blast
    qed
    ultimately show ?thesis by blast
  qed
  have g: "num_less (ToNumber (get r ''id'')) (generateId data) \<and> get r ''id'' \<noteq> JNum (generateId data)"
    if r: "r \<in> set data" for r
  proof -
    from r have "data \<noteq> []" by auto
    from n [OF this] obtain m where m: "generateId data = Fin (m + 1)"
      "\<forall>r\<in>set data. \<forall>q. get r ''id'' = JNum (Fin q) \<longrightarrow> q \<le> m" by blast
    from assms r obtain z :: int where q: "get r ''id'' = JNum (Fin (of_int z))" by blast
    with m(2) r have "of_int z \<le> m" by blast
    then show ?thesis by (simp add: q m(1))
  qed
  have c: "generateId [[''id'' \<mapsto> JNum (Fin 1)], [''id'' \<mapsto> JNum (Fin 3)]] = Fin 4"
    by (simp add: generateId_def math_max_def num_max_def get_def to_double_literals)
  show ?thesis using e n g c by blast
qed

theorem generateId_next_witness:
  "generateId [[''id'' \<mapsto> JNum (Fin 2)], [''id'' \<mapsto> JNum (Fin 7)], [''id'' \<mapsto> JNum (Fin 5)]] = Fin 8
   \<and> num_less (Fin 7) (generateId [[''id'' \<mapsto> JNum (Fin 2)], [''id'' \<mapsto> JNum (Fin 7)], [''id'' \<mapsto> JNum (Fin 5)]])"
proof -
  let ?d = "[[''id'' \<mapsto> JNum (Fin 2)], [''id'' \<mapsto> JNum (Fin 7)], [''id'' \<mapsto> JNum (Fin 5)]]"
  have z: "\<exists>z::int. (2::rat) = of_int z \<and> \<bar>z\<bar> < 2 ^ 53"
    "\<exists>z::int. (7::rat) = of_int z \<and> \<bar>z\<bar> < 2 ^ 53"
    "\<exists>z::int. (5::rat) = of_int z \<and> \<bar>z\<bar> < 2 ^ 53"
    by (rule exI [of _ 2], simp) (rule exI [of _ 7], simp, rule exI [of _ 5], simp)
  have h: "\<forall>r\<in>set ?d. \<exists>z::int. get r ''id'' = JNum (Fin (of_int z)) \<and> \<bar>z\<bar> < 2 ^ 53"
    using z by (simp add: get_def)
  have v: "generateId ?d = Fin 8"
    by (simp add: generateId_def math_max_def num_max_def get_def to_double_literals)
  from generateId_next [OF h] have "\<forall>r\<in>set ?d. num_less (ToNumber (get r ''id'')) (generateId ?d)"
    by blast
  then have "num_less (Fin 7) (generateId ?d)" by (simp add: get_def)
  with v show ?thesis by blast
qed

subsection \<open>Filters\<close>

lemma filter_throwing_total:
  assumes "\<forall>x\<in>set xs. p x = Inr (q x)"
  shows "filter_throwing p xs = Inr (filter q xs)"
  using assms by (induction xs) simp_all

lemma includes_str_empty: "includes_str s []"
  by (cases s) simp_all

lemma toLowerCase_Nil: "toLowerCase [] = []"
  by (simp add: toLowerCase_def)

lemma toLowerCase_empty_iff: "toLowerCase s = [] \<longleftrightarrow> s = []"
  by (simp add: toLowerCase_def)

lemma is_stringE: "is_string v \<Longrightarrow> \<exists>s. v = JStr s"
  by (cases v) (simp_all add: is_string_def)

lemma is_numberE: "is_number v \<Longrightarrow> \<exists>n. v = JNum n"
  by (cases v) (simp_all add: is_number_def)

lemma strict_eq_JStr: "strict_eq (get r k) (JStr s) \<longleftrightarrow> r k = Some (JStr s)"
  by (cases "r k"; cases "get r k") (auto simp: get_def)

lemma strict_eq_JBool: "strict_eq (get r k) (JBool b) \<longleftrightarrow> r k = Some (JBool b)"
  by (cases "r k"; cases "get r k") (auto simp: get_def)

lemma orders_matchesSearch_record:
  assumes "order_record r"
  shows "orders_matchesSearch (toLowerCase term) r =
     Inr (term \<noteq> [] \<longrightarrow> text_contains term [''clientName'', ''products''] r
           \<or> includes_str (decimal_of (get r ''id'')) (toLowerCase term))"
proof -
  from assms obtain c p n where
    "get r ''clientName'' = JStr c" "get r ''products'' = JStr p" "get r ''id'' = JNum n"
    unfolding order_record_def using is_stringE is_numberE by blast
  then show ?thesis
    by (simp add: orders_matchesSearch_def text_contains_def method_toLowerCase_def
        decimal_of_def toLowerCase_empty_iff text_of_def)
qed

lemma products_matchesSearch_record:
  assumes "product_record r"
  shows "products_matchesSearch (toLowerCase term) r =
     Inr (term \<noteq> [] \<longrightarrow> text_contains term [''name'', ''supplier''] r)"
proof -
  from assms obtain n s where "get r ''name'' = JStr n" "get r ''supplier'' = JStr s"
    unfolding product_record_def using is_stringE by blast
  then show ?thesis
    by (simp add: products_matchesSearch_def text_contains_def method_toLowerCase_def
        toLowerCase_empty_iff text_of_def)
qed

lemma clients_matchSearch_record:
  assumes "client_record r"
  shows "clients_matchSearch (toLowerCase term) r =
     Inr (term \<noteq> [] \<longrightarrow> text_contains term [''name'', ''email''] r)"
proof -
  from assms obtain n e where "get r ''name'' = JStr n" "get r ''email'' = JStr e"
    unfolding client_record_def using is_stringE by blast
  then show ?thesis
    by (auto simp add: clients_matchSearch_def text_contains_def method_toLowerCase_def
        toLowerCase_empty_iff toLowerCase_Nil text_of_def or_empty_def includes_str_empty)
qed

lemma applyFilters_orders_records:
  assumes "\<forall>r\<in>set data. order_record r"
  shows "applyFilters_orders searchInput filterStatus filterPayment data =
     Inr (filter (order_matches (value_or_empty searchInput) (value_or_empty filterStatus)
                    (value_or_empty filterPayment)) data)"
  unfolding applyFilters_orders_def Let_def
  by (rule filter_throwing_total)
     (auto simp add: assms orders_matchesSearch_record order_matches_def equality_matches_def
        strict_eq_JStr)

lemma applyFilters_products_records:
  assumes "\<forall>r\<in>set data. product_record r"
  shows "applyFilters_products searchInput filterCategory filterAvailability data =
     Inr (filter (product_matches (value_or_empty searchInput) (value_or_empty filterCategory)
                    (value_or_empty filterAvailability)) data)"
  unfolding applyFilters_products_def Let_def
  by (rule filter_throwing_total)
     (auto simp add: assms products_matchesSearch_record product_matches_def equality_matches_def
        strict_eq_JStr strict_eq_JBool)

lemma renderClientsTable_filtered_records:
  assumes "\<forall>r\<in>set clients. client_record r"
  shows "renderClientsTable_filtered searchInput cityFilter typeFilter clients =
     Inr (filter (client_matches searchInput cityFilter typeFilter) clients)"
  unfolding renderClientsTable_filtered_def Let_def
  by (rule filter_throwing_total)
     (auto simp add: assms clients_matchSearch_record client_matches_def equality_matches_def
        strict_eq_JStr)

lemma applyFilters_orders_empty:
  "applyFilters_orders searchInput filterStatus filterPayment data = Inr data"
  if "value_or_empty searchInput = []" "value_or_empty filterStatus = []"
     "value_or_empty filterPayment = []"
proof -
  have "filter_throwing (\<lambda>item. Inr True) data = Inr (filter (\<lambda>item. True) data)"
    by (rule filter_throwing_total) simp
  then show ?thesis
    using that by (simp add: applyFilters_orders_def orders_matchesSearch_def toLowerCase_def)
qed

lemma applyFilters_products_empty:
  "applyFilters_products searchInput filterCategory filterAvailability data = Inr data"
  if "value_or_empty searchInput = []" "value_or_empty filterCategory = []"
     "value_or_empty filterAvailability = []"
proof -
  have "filter_throwing (\<lambda>item. Inr True) data = Inr (filter (\<lambda>item. True) data)"
    by (rule filter_throwing_total) simp
  then show ?thesis
    using that by (simp add: applyFilters_products_def products_matchesSearch_def toLowerCase_def)
qed

text \<open>
  Claim C2.  On records of the data model (the searched fields are strings, the id of an
  order is a number) the filter of the orders page, of the products page and of the
  clients page returns, in the original order, exactly the records that match every
  criterion that is not empty: the search term as a case-insensitive substring of a
  searched field (for an order also of the digits of its id) and each equality filter as
  the exact value of its field.  With all criteria empty the filter returns the original
  sequence.
\<close>

theorem applyFilters_conjunction:
  assumes "\<forall>r\<in>set orders. order_record r"
    and "\<forall>r\<in>set products. product_record r"
    and "\<forall>r\<in>set clients. client_record r"
  shows "applyFilters_orders searchInput filterStatus filterPayment orders =
           Inr (filter (order_matches (value_or_empty searchInput) (value_or_empty filterStatus)
                          (value_or_empty filterPayment)) orders)
    \<and> applyFilters_products searchInput filterCategory filterAvailability products =
           Inr (filter (product_matches (value_or_empty searchInput)
                          (value_or_empty filterCategory)
                          (value_or_empty filterAvailability)) products)
    \<and> renderClientsTable_filtered search cityFilter typeFilter clients =
           Inr (filter (client_matches search cityFilter typeFilter) clients)
    \<and> (value_or_empty searchInput = [] \<and> value_or_empty filterStatus = []
         \<and> value_or_empty filterPayment = [] \<longrightarrow>
         applyFilters_orders searchInput filterStatus filterPayment data = Inr data)
    \<and> (value_or_empty searchInput = [] \<and> value_or_empty filterCategory = []
         \<and> value_or_empty filterAvailability = [] \<longrightarrow>
         applyFilters_products searchInput filterCategory filterAvailability data = Inr data)
    \<and> renderClientsTable_filtered [] [] [] clients = Inr clients"
proof -
  have "renderClientsTable_filtered [] [] [] clients
          = Inr (filter (client_matches [] [] []) clients)"
    by (rule renderClientsTable_filtered_records [OF assms(3)])
  then have "renderClientsTable_filtered [] [] [] clients = Inr clients"
    by (simp add: client_matches_def equality_matches_def)
  then show ?thesis
    using applyFilters_orders_records [OF assms(1)] applyFilters_products_records [OF assms(2)]
      renderClientsTable_filtered_records [OF assms(3)]
      applyFilters_orders_empty [of searchInput filterStatus filterPayment data]
      applyFilters_products_empty [of searchInput filterCategory filterAvailability data]
    by blast
qed


theorem applyFilters_conjunction_witness:
  "applyFilters_orders (Some ''MAR'') (Some ''En cours'') None
     [[''id'' \<mapsto> JNum (Fin 1), ''clientName'' \<mapsto> JStr ''Marie'', ''products'' \<mapsto> JStr ''Pizza'',
       ''status'' \<mapsto> JStr ''En cours''],
      [''id'' \<mapsto> JNum (Fin 2), ''clientName'' \<mapsto> JStr ''Sophie'', ''products'' \<mapsto> JStr ''Sushi'',
       ''status'' \<mapsto> JStr ''En cours''],
      [''id'' \<mapsto> JNum (Fin 3), ''clientName'' \<mapsto> JStr ''Omar'', ''products'' \<mapsto> JStr ''Tacos'',
       ''status'' \<mapsto> JStr ''En attente'']]
   = Inr [[''id'' \<mapsto> JNum (Fin 1), ''clientName'' \<mapsto> JStr ''Marie'', ''products'' \<mapsto> JStr ''Pizza'',
           ''status'' \<mapsto> JStr ''En cours'']]
   \<and> applyFilters_products (Some ''MAR'') (Some ''En cours'') None
     [[''name'' \<mapsto> JStr ''Pizza'', ''supplier'' \<mapsto> JStr ''Roma'']] = Inr []
   \<and> renderClientsTable_filtered ''mar'' [] ''Particulier''
     [[''name'' \<mapsto> JStr ''Marie'', ''email'' \<mapsto> JStr ''m@x.fr'', ''type'' \<mapsto> JStr ''Particulier''],
      [''name'' \<mapsto> JStr ''Hotel'', ''email'' \<mapsto> JStr ''omar@x.fr'', ''type'' \<mapsto> JStr ''Entreprise'']]
   = Inr [[''name'' \<mapsto> JStr ''Marie'', ''email'' \<mapsto> JStr ''m@x.fr'', ''type'' \<mapsto> JStr ''Particulier'']]"
proof -
  let ?orders = "[[''id'' \<mapsto> JNum (Fin 1), ''clientName'' \<mapsto> JStr ''Marie'', ''products'' \<mapsto> JStr ''Pizza'',
       ''status'' \<mapsto> JStr ''En cours''],
      [''id'' \<mapsto> JNum (Fin 2), ''clientName'' \<mapsto> JStr ''Sophie'', ''products'' \<mapsto> JStr ''Sushi'',
       ''status'' \<mapsto> JStr ''En cours''],
      [''id'' \<mapsto> JNum (Fin 3), ''clientName'' \<mapsto> JStr ''Omar'', ''products'' \<mapsto> JStr ''Tacos'',
       ''status'' \<mapsto> JStr ''En attente'']]"
  let ?products = "[[''name'' \<mapsto> JStr ''Pizza'', ''supplier'' \<mapsto> JStr ''Roma'']]"
  let ?clients = "[[''name'' \<mapsto> JStr ''Marie'', ''email'' \<mapsto> JStr ''m@x.fr'', ''type'' \<mapsto> JStr ''Particulier''],
      [''name'' \<mapsto> JStr ''Hotel'', ''email'' \<mapsto> JStr ''omar@x.fr'', ''type'' \<mapsto> JStr ''Entreprise'']]"
  have o: "\<forall>r\<in>set ?orders. order_record r"
    by (simp add: order_record_def is_string_def is_number_def get_def)
  have p: "\<forall>r\<in>set ?products. product_record r"
    by (simp add: product_record_def is_string_def get_def)
  have c: "\<forall>r\<in>set ?clients. client_record r"
    by (simp add: client_record_def is_string_def get_def)
  have digits: "unsigned_toString 2 = ''2''" "unsigned_toString 3 = ''3''"
    by (simp_all add: unsigned_toString_def nat_digits.simps digit_char_def)
  have fo: "filter (order_matches ''MAR'' ''En cours'' []) ?orders = [hd ?orders]"
    by (simp add: order_matches_def text_contains_def equality_matches_def decimal_of_def
        text_of_def get_def char_simps digits)
  have fp: "filter (product_matches ''MAR'' ''En cours'' []) ?products = []"
    by (simp add: product_matches_def text_contains_def equality_matches_def
        text_of_def get_def char_simps)
  have fc: "filter (client_matches ''mar'' [] ''Particulier'') ?clients = [hd ?clients]"
    by (simp add: client_matches_def text_contains_def equality_matches_def
        text_of_def get_def char_simps)
  have v: "value_or_empty (Some ''MAR'') = ''MAR''" "value_or_empty (Some ''En cours'') = ''En cours''"
    "value_or_empty None = []"
    by (simp_all add: value_or_empty_def)
  show ?thesis
    using applyFilters_conjunction [OF o p c, of "Some ''MAR''" "Some ''En cours''" None
      "Some ''En cours''" None "''mar''" "[]" "''Particulier''"]
    unfolding v fo fp fc by simp
qed

text \<open>
  Outside the data model the filters can throw: the order filter reads
  \<open>item.clientName.toLowerCase()\<close> without a guard, so a non-empty search term on an
  order without a client name ends in a TypeError; the client filter guards a missing
  name with \<open>|| ''\<close>, yet a name that is a number has no \<open>toLowerCase\<close>.
\<close>

lemma applyFilters_orders_missing_clientName:
  "applyFilters_orders (Some ''a'') None None [[''id'' \<mapsto> JNum (Fin 1)]] = Inl TypeError"
  by (simp add: applyFilters_orders_def orders_matchesSearch_def method_toLowerCase_def
      value_or_empty_def get_def char_simps)

lemma renderClientsTable_filtered_missing_name:
  "renderClientsTable_filtered [] [] [] [[''id'' \<mapsto> JNum (Fin 1)]]
     = Inr [[''id'' \<mapsto> JNum (Fin 1)]]"
  by (simp add: renderClientsTable_filtered_def clients_matchSearch_def method_toLowerCase_def
      or_empty_def get_def toLowerCase_Nil)

lemma renderClientsTable_filtered_numeric_name:
  "renderClientsTable_filtered [] [] [] [[''name'' \<mapsto> JNum (Fin 5)]] = Inl TypeError"
  by (simp add: renderClientsTable_filtered_def clients_matchSearch_def method_toLowerCase_def
      or_empty_def get_def toLowerCase_Nil)

subsection \<open>Deletion\<close>

lemma strict_eq_Fin: "strict_eq v (JNum (Fin n)) \<longleftrightarrow> v = JNum (Fin n)"
  by (cases v) (auto simp: num_eq_def)

lemma deleteOrder_filter:
  "n \<noteq> 0 \<Longrightarrow> deleteOrder (JNum (Fin n)) data = filter (\<lambda>r. get r ''id'' \<noteq> JNum (Fin n)) data"
  by (simp add: deleteOrder_def confirmDelete_def deleteItem_def strict_eq_Fin)

lemma deleteUser_filter:
  "deleteUser True (JNum (Fin n)) data = filter (\<lambda>r. get r ''id'' \<noteq> JNum (Fin n)) data"
  by (simp add: deleteUser_def strict_eq_Fin)

lemma filter_absent:
  assumes "\<forall>r\<in>set data. f r \<noteq> k"
  shows "filter (\<lambda>r. f r \<noteq> k) data = data"
  using assms by (induction data) simp_all

lemma filter_present:
  assumes "distinct (map f (ys @ r # zs))" and "f r = k"
  shows "filter (\<lambda>r. f r \<noteq> k) (ys @ r # zs) = ys @ zs"
proof -
  from assms(1) have "f r \<notin> f ` set ys" "f r \<notin> f ` set zs" by auto
  then have "\<forall>y\<in>set ys. f y \<noteq> k" "\<forall>z\<in>set zs. f z \<noteq> k"
    using assms(2) by (metis imageI)+
  then show ?thesis using assms(2) by (simp add: filter_absent)
qed

text \<open>
  Claim C9.  On a collection with unique ids, deleting a (non-zero, as every id of the
  data model is a positive integer) id that no record has leaves the collection as it
  is; deleting the id of a record removes that one record and keeps the records before
  and after it in their order; deleting the same id a second time changes nothing more.
  This holds for the two-step deletion of orders and products and for the confirmed
  deletion of users, clients and deliveries.
\<close>

theorem delete_by_id:
  assumes "distinct (map (\<lambda>r. get r ''id'') data)" and "n \<noteq> 0"
  shows "((\<forall>r\<in>set data. get r ''id'' \<noteq> JNum (Fin n)) \<longrightarrow>
            deleteOrder (JNum (Fin n)) data = data \<and> deleteUser True (JNum (Fin n)) data = data)
    \<and> (\<forall>ys r zs. data = ys @ r # zs \<and> get r ''id'' = JNum (Fin n) \<longrightarrow>
            deleteOrder (JNum (Fin n)) data = ys @ zs
          \<and> deleteUser True (JNum (Fin n)) data = ys @ zs)
    \<and> deleteOrder (JNum (Fin n)) (deleteOrder (JNum (Fin n)) data) = deleteOrder (JNum (Fin n)) data
    \<and> deleteUser True (JNum (Fin n)) (deleteUser True (JNum (Fin n)) data)
        = deleteUser True (JNum (Fin n)) data"
proof (intro conjI impI allI)
  assume a: "\<forall>r\<in>set data. get r ''id'' \<noteq> JNum (Fin n)"
  show "deleteOrder (JNum (Fin n)) data = data"
    by (simp add: deleteOrder_filter [OF assms(2)] filter_absent [OF a])
  show "deleteUser True (JNum (Fin n)) data = data"
    by (simp add: deleteUser_filter filter_absent [OF a])
next
  fix ys r zs
  assume p: "data = ys @ r # zs \<and> get r ''id'' = JNum (Fin n)"
  then have "filter (\<lambda>r. get r ''id'' \<noteq> JNum (Fin n)) (ys @ r # zs) = ys @ zs"
    using assms(1) by (intro filter_present) simp_all
  with p show "deleteOrder (JNum (Fin n)) data = ys @ zs"
    "deleteUser True (JNum (Fin n)) data = ys @ zs"
    by (simp_all add: deleteOrder_filter [OF assms(2)] deleteUser_filter)
next
  show "deleteOrder (JNum (Fin n)) (deleteOrder (JNum (Fin n)) data) = deleteOrder (JNum (Fin n)) data"
    by (simp add: deleteOrder_filter [OF assms(2)])
  show "deleteUser True (JNum (Fin n)) (deleteUser True (JNum (Fin n)) data)
        = deleteUser True (JNum (Fin n)) data"
    by (simp add: deleteUser_filter)
qed

theorem delete_by_id_witness:
  "deleteOrder (JNum (Fin 2))
     [[''id'' \<mapsto> JNum (Fin 1)], [''id'' \<mapsto> JNum (Fin 2)], [''id'' \<mapsto> JNum (Fin 3)]]
   = [[''id'' \<mapsto> JNum (Fin 1)], [''id'' \<mapsto> JNum (Fin 3)]]
   \<and> deleteUser True (JNum (Fin 2))
     [[''id'' \<mapsto> JNum (Fin 1)], [''id'' \<mapsto> JNum (Fin 2)], [''id'' \<mapsto> JNum (Fin 3)]]
   = [[''id'' \<mapsto> JNum (Fin 1)], [''id'' \<mapsto> JNum (Fin 3)]]
   \<and> deleteOrder (JNum (Fin 7))
     [[''id'' \<mapsto> JNum (Fin 1)], [''id'' \<mapsto> JNum (Fin 2)], [''id'' \<mapsto> JNum (Fin 3)]]
   = [[''id'' \<mapsto> JNum (Fin 1)], [''id'' \<mapsto> JNum (Fin 2)], [''id'' \<mapsto> JNum (Fin 3)]]"
proof -
  let ?data = "[[''id'' \<mapsto> JNum (Fin 1)], [''id'' \<mapsto> JNum (Fin 2)], [''id'' \<mapsto> JNum (Fin 3)]]"
  have d: "distinct (map (\<lambda>r. get r ''id'') ?data)" by (simp add: get_def)
  have s: "?data = [[''id'' \<mapsto> JNum (Fin 1)]] @ [''id'' \<mapsto> JNum (Fin 2)] # [[''id'' \<mapsto> JNum (Fin 3)]]
           \<and> get [''id'' \<mapsto> JNum (Fin 2)] ''id'' = JNum (Fin 2)"
    by (simp add: get_def)
  have a: "\<forall>r\<in>set ?data. get r ''id'' \<noteq> JNum (Fin 7)" by (simp add: get_def)
  have n2: "(2::rat) \<noteq> 0" and n7: "(7::rat) \<noteq> 0" by simp_all
  note present = delete_by_id [OF d n2, THEN conjunct2, THEN conjunct1, THEN spec, THEN spec, THEN spec, THEN mp, OF s]
  note absent = delete_by_id [OF d n7, THEN conjunct1, THEN mp, OF a]
  show ?thesis using present absent by simp
qed

subsection \<open>Updating through the forms\<close>

lemma findIndex_Some:
  "findIndex p xs = Some i \<Longrightarrow> i < length xs \<and> p (xs ! i)"
proof (induction xs arbitrary: i)
  case Nil
  then show ?case by simp
next
  case (Cons x xs)
  then show ?case by (cases "p x") auto
qed

lemma dom_order_formData:
  "dom (order_formData form clients) =
     {''clientId'', ''clientName'', ''products'', ''quantity'', ''amount'', ''status'',
      ''paymentStatus'', ''address'', ''notes''}"
  by (auto simp add: order_formData_def Let_def split: if_splits)

lemma update_merge_frame:
  "j < length xs \<Longrightarrow> f k = None \<Longrightarrow> (xs[i := xs ! i ++ f] ! j) k = (xs ! j) k"
  by (cases "i = j") (simp_all add: map_add_def)

lemma handleFormSubmit_orders_update:
  assumes "truthy editingId"
  shows "handleFormSubmit_orders form clients today editingId data =
     (if order_form_valid (order_formData form clients) then
        (case findIndex (\<lambda>item. strict_eq (get item ''id'') editingId) data of
           Some index \<Rightarrow> data[index := (data ! index) ++ order_formData form clients]
         | None \<Rightarrow> data)
      else data)"
  using assms by (simp add: handleFormSubmit_orders_def Let_def)

text \<open>
  Claim C7.  On the update path of the order form (\<open>editingId\<close> is set) the stored
  collection keeps its length; every record keeps every field that is not among the
  submitted fields, its id in particular; every record other than the edited one, the
  first whose id is \<open>editingId\<close>, is unchanged; and when the form is valid the edited
  record becomes the prior record overridden by the submitted fields.  The submitted
  fields are clientId, clientName, products, quantity, amount, status, paymentStatus,
  address and notes.
\<close>

theorem order_update_frame:
  assumes "truthy editingId"
  shows "length (handleFormSubmit_orders form clients today editingId data) = length data
    \<and> (\<forall>j<length data. \<forall>k. k \<notin> dom (order_formData form clients) \<longrightarrow>
          (handleFormSubmit_orders form clients today editingId data ! j) k = (data ! j) k)
    \<and> (\<forall>j<length data.
          (handleFormSubmit_orders form clients today editingId data ! j) ''id'' = (data ! j) ''id'')
    \<and> (\<forall>j<length data.
          findIndex (\<lambda>item. strict_eq (get item ''id'') editingId) data \<noteq> Some j \<longrightarrow>
          handleFormSubmit_orders form clients today editingId data ! j = data ! j)
    \<and> (\<forall>i. order_form_valid (order_formData form clients)
            \<and> findIndex (\<lambda>item. strict_eq (get item ''id'') editingId) data = Some i \<longrightarrow>
          handleFormSubmit_orders form clients today editingId data ! i
            = (data ! i) ++ order_formData form clients)
    \<and> dom (order_formData form clients) =
         {''clientId'', ''clientName'', ''products'', ''quantity'', ''amount'', ''status'',
          ''paymentStatus'', ''address'', ''notes''}"
proof -
  let ?res = "handleFormSubmit_orders form clients today editingId data"
  let ?f = "order_formData form clients"
  let ?ix = "findIndex (\<lambda>item. strict_eq (get item ''id'') editingId) data"
  note upd = handleFormSubmit_orders_update [OF assms, of form clients today data]
  have len: "length ?res = length data"
    by (simp add: upd split: option.splits)
  have frame: "(?res ! j) k = (data ! j) k" if "j < length data" "k \<notin> dom ?f" for j k
    using that by (auto simp add: upd update_merge_frame split: option.splits)
  have other: "?res ! j = data ! j" if "j < length data" "?ix \<noteq> Some j" for j
    using that by (auto simp add: upd split: option.splits)
  have merged: "?res ! i = (data ! i) ++ ?f" if "order_form_valid ?f" "?ix = Some i" for i
    using that findIndex_Some [OF that(2)] by (simp add: upd)
  have ident: "(?res ! j) ''id'' = (data ! j) ''id''" if "j < length data" for j
    by (rule frame [OF that]) (simp add: dom_order_formData)
  show ?thesis
  proof (intro conjI allI impI)
    show "length ?res = length data" by (rule len)
  next
    fix j k assume "j < length data" "k \<notin> dom ?f"
    then show "(?res ! j) k = (data ! j) k" by (rule frame)
  next
    fix j assume "j < length data"
    then show "(?res ! j) ''id'' = (data ! j) ''id''" by (rule ident)
  next
    fix j assume "j < length data" "?ix \<noteq> Some j"
    then show "?res ! j = data ! j" by (rule other)
  next
    fix i assume "order_form_valid ?f \<and> ?ix = Some i"
    then show "?res ! i = (data ! i) ++ ?f" using merged by blast
  next
    show "dom ?f = {''clientId'', ''clientName'', ''products'', ''quantity'', ''amount'',
          ''status'', ''paymentStatus'', ''address'', ''notes''}"
      by (rule dom_order_formData)
  qed
qed


theorem order_update_frame_witness:
  "truthy (JNum (Fin 1))
   \<and> (handleFormSubmit_orders
        \<lparr>o_client = ''1'', o_product = ''Pizza'', o_quantity = ''2'', o_amount = ''30'',
         o_status = ''En cours'', o_payment = ''En attente'', o_address = ''Paris'',
         o_notes = None\<rparr>
        [[''id'' \<mapsto> JNum (Fin 1), ''name'' \<mapsto> JStr ''Marie'']] ''2024-05-01'' (JNum (Fin 1))
        [[''id'' \<mapsto> JNum (Fin 1), ''createdAt'' \<mapsto> JStr ''2024-04-01'', ''products'' \<mapsto> JStr ''Sushi''],
         [''id'' \<mapsto> JNum (Fin 2), ''products'' \<mapsto> JStr ''Tacos'']] ! 0) ''createdAt''
       = Some (JStr ''2024-04-01'')
   \<and> (handleFormSubmit_orders
        \<lparr>o_client = ''1'', o_product = ''Pizza'', o_quantity = ''2'', o_amount = ''30'',
         o_status = ''En cours'', o_payment = ''En attente'', o_address = ''Paris'',
         o_notes = None\<rparr>
        [[''id'' \<mapsto> JNum (Fin 1), ''name'' \<mapsto> JStr ''Marie'']] ''2024-05-01'' (JNum (Fin 1))
        [[''id'' \<mapsto> JNum (Fin 1), ''createdAt'' \<mapsto> JStr ''2024-04-01'', ''products'' \<mapsto> JStr ''Sushi''],
         [''id'' \<mapsto> JNum (Fin 2), ''products'' \<mapsto> JStr ''Tacos'']] ! 0) ''id''
       = Some (JNum (Fin 1))
   \<and> (handleFormSubmit_orders
        \<lparr>o_client = ''1'', o_product = ''Pizza'', o_quantity = ''2'', o_amount = ''30'',
         o_status = ''En cours'', o_payment = ''En attente'', o_address = ''Paris'',
         o_notes = None\<rparr>
        [[''id'' \<mapsto> JNum (Fin 1), ''name'' \<mapsto> JStr ''Marie'']] ''2024-05-01'' (JNum (Fin 1))
        [[''id'' \<mapsto> JNum (Fin 1), ''createdAt'' \<mapsto> JStr ''2024-04-01'', ''products'' \<mapsto> JStr ''Sushi''],
         [''id'' \<mapsto> JNum (Fin 2), ''products'' \<mapsto> JStr ''Tacos'']] ! 0) ''products''
       = Some (JStr ''Pizza'')
   \<and> handleFormSubmit_orders
        \<lparr>o_client = ''1'', o_product = ''Pizza'', o_quantity = ''2'', o_amount = ''30'',
         o_status = ''En cours'', o_payment = ''En attente'', o_address = ''Paris'',
         o_notes = None\<rparr>
        [[''id'' \<mapsto> JNum (Fin 1), ''name'' \<mapsto> JStr ''Marie'']] ''2024-05-01'' (JNum (Fin 1))
        [[''id'' \<mapsto> JNum (Fin 1), ''createdAt'' \<mapsto> JStr ''2024-04-01'', ''products'' \<mapsto> JStr ''Sushi''],
         [''id'' \<mapsto> JNum (Fin 2), ''products'' \<mapsto> JStr ''Tacos'']] ! 1
       = [''id'' \<mapsto> JNum (Fin 2), ''products'' \<mapsto> JStr ''Tacos'']"
proof -
  let ?form = "\<lparr>o_client = ''1'', o_product = ''Pizza'', o_quantity = ''2'', o_amount = ''30'',
         o_status = ''En cours'', o_payment = ''En attente'', o_address = ''Paris'',
         o_notes = None\<rparr>"
  let ?clients = "[[''id'' \<mapsto> JNum (Fin 1), ''name'' \<mapsto> JStr ''Marie'']]"
  let ?data = "[[''id'' \<mapsto> JNum (Fin 1), ''createdAt'' \<mapsto> JStr ''2024-04-01'', ''products'' \<mapsto> JStr ''Sushi''],
         [''id'' \<mapsto> JNum (Fin 2), ''products'' \<mapsto> JStr ''Tacos'']]"
  let ?res = "handleFormSubmit_orders ?form ?clients ''2024-05-01'' (JNum (Fin 1)) ?data"
  let ?f = "order_formData ?form ?clients"
  have p: "parseInt10 ''1'' = Fin 1" "parseInt10 ''2'' = Fin 2" "parseFloat_str ''30'' = Fin 30"
    by code_simp+
  have t: "truthy (JNum (Fin 1))" by simp
  have valid: "order_form_valid ?f"
    by (simp add: order_form_valid_def order_formData_def Let_def get_def p)
  have ix: "findIndex (\<lambda>item. strict_eq (get item ''id'') (JNum (Fin 1))) ?data = Some 0"
    by (simp add: get_def num_eq_def)
  have nix: "findIndex (\<lambda>item. strict_eq (get item ''id'') (JNum (Fin 1))) ?data \<noteq> Some 1"
    unfolding ix by simp
  have prod: "?f ''products'' = Some (JStr ''Pizza'')"
    by (simp add: order_formData_def Let_def)
  have nd: "''createdAt'' \<notin> dom ?f"
    by (simp add: order_formData_def Let_def)
  note th = order_update_frame [OF t, of ?form ?clients "''2024-05-01''" ?data]
  have l0: "0 < length ?data" and l1: "1 < length ?data" by simp_all
  have a: "(?res ! 0) ''createdAt'' = (?data ! 0) ''createdAt''"
    using th [THEN conjunct2, THEN conjunct1, THEN spec, THEN mp, OF l0, THEN spec, THEN mp, OF nd] .
  have b: "(?res ! 0) ''id'' = (?data ! 0) ''id''"
    using th [THEN conjunct2, THEN conjunct2, THEN conjunct1, THEN spec, THEN mp, OF l0] .
  have c: "?res ! 1 = ?data ! 1"
    using th [THEN conjunct2, THEN conjunct2, THEN conjunct2, THEN conjunct1, THEN spec, THEN mp,
        OF l1, THEN mp, OF nix] .
  have d: "?res ! 0 = (?data ! 0) ++ ?f"
    using th [THEN conjunct2, THEN conjunct2, THEN conjunct2, THEN conjunct2, THEN conjunct1,
        THEN spec, THEN mp, OF conjI [OF valid ix]] .
  have d': "(?res ! 0) ''products'' = Some (JStr ''Pizza'')"
    by (simp only: d map_add_Some_iff prod) simp
  show ?thesis using t a b c d' by simp
qed

lemma find_first_findIndex:
  "findIndex p xs = Some i \<Longrightarrow> find_first p xs = Some (xs ! i)"
proof (induction xs arbitrary: i)
  case Nil
  then show ?case by simp
next
  case (Cons x xs)
  then show ?case by (cases "p x") auto
qed

lemma dom_product_formData:
  "dom (product_formData form) =
     {''name'', ''category'', ''price'', ''stock'', ''supplier'', ''available''}"
  by (auto simp add: product_formData_def split: if_splits)

lemma dom_clientData:
  "dom (clientData form clients) =
     {''id'', ''name'', ''email'', ''phone'', ''type'', ''city'', ''orders'', ''address''}"
  by (auto simp add: clientData_def split: if_splits)

lemma dom_userData:
  "dom (userData form ident createdAt) =
     {''id'', ''name'', ''email'', ''role'', ''status'', ''phone'', ''createdAt''}"
  by (auto simp add: userData_def split: if_splits)

lemma product_update:
  assumes "truthy editingId" "product_form_valid (product_formData form)"
    "findIndex (\<lambda>item. strict_eq (get item ''id'') editingId) data = Some i"
  shows "handleFormSubmit_products form editingId data ! i = (data ! i) ++ product_formData form"
  using assms findIndex_Some [OF assms(3)] by (simp add: handleFormSubmit_products_def Let_def)

lemma client_update:
  assumes "c_entityId form \<noteq> []"
    "findIndex (\<lambda>c. loose_eq (get c ''id'') (JStr (c_entityId form))) clients = Some i"
  shows "handleFormSubmit_clients form clients ! i = clientData form clients"
  using assms findIndex_Some [OF assms(2)]
  by (simp add: handleFormSubmit_clients_def assign_at_def)

lemma user_update:
  assumes "u_entityId form \<noteq> []"
    "findIndex (\<lambda>u. loose_eq (get u ''id'') (JStr (u_entityId form))) users = Some i"
  shows "handleFormSubmit_users form now users =
    Inr (users[i := userData form (parseInt (u_entityId form)) (get (users ! i) ''createdAt'')])"
  using assms find_first_findIndex [OF assms(2)]
  by (simp add: handleFormSubmit_users_def assign_at_def)

text \<open>
  Claim C8, amended.  The product form, like the order form, merges: the edited product
  becomes the prior record overridden by the submitted fields (name, category, price,
  stock, supplier, available), and every other field of it is kept.  The client form and
  the user form replace: the edited record becomes the record built from the form, so a
  field outside id, name, email, phone, type, city, orders, address (client) or outside
  id, name, email, role, status, phone, createdAt (user, whose createdAt is copied from
  the prior record) is gone after the update.
\<close>

theorem update_merge_or_replace:
  "(truthy editingId \<and> product_form_valid (product_formData pform)
      \<and> findIndex (\<lambda>item. strict_eq (get item ''id'') editingId) products = Some i \<longrightarrow>
      handleFormSubmit_products pform editingId products ! i
        = (products ! i) ++ product_formData pform
      \<and> (\<forall>k. k \<notin> {''name'', ''category'', ''price'', ''stock'', ''supplier'', ''available''} \<longrightarrow>
            (handleFormSubmit_products pform editingId products ! i) k = (products ! i) k))
   \<and> (c_entityId cform \<noteq> []
      \<and> findIndex (\<lambda>c. loose_eq (get c ''id'') (JStr (c_entityId cform))) clients = Some j \<longrightarrow>
      handleFormSubmit_clients cform clients ! j = clientData cform clients
      \<and> (\<forall>k. k \<notin> {''id'', ''name'', ''email'', ''phone'', ''type'', ''city'', ''orders'',
                    ''address''} \<longrightarrow>
            (handleFormSubmit_clients cform clients ! j) k = None))
   \<and> (u_entityId uform \<noteq> []
      \<and> findIndex (\<lambda>u. loose_eq (get u ''id'') (JStr (u_entityId uform))) users = Some l \<longrightarrow>
      (\<exists>res. handleFormSubmit_users uform now users = Inr res
          \<and> res ! l = userData uform (parseInt (u_entityId uform)) (get (users ! l) ''createdAt'')
          \<and> (\<forall>k. k \<notin> {''id'', ''name'', ''email'', ''role'', ''status'', ''phone'',
                        ''createdAt''} \<longrightarrow> (res ! l) k = None)))"
proof (intro conjI impI)
  assume a: "truthy editingId \<and> product_form_valid (product_formData pform)
      \<and> findIndex (\<lambda>item. strict_eq (get item ''id'') editingId) products = Some i"
  then have m: "handleFormSubmit_products pform editingId products ! i
        = (products ! i) ++ product_formData pform"
    by (intro product_update) simp_all
  then show "handleFormSubmit_products pform editingId products ! i
        = (products ! i) ++ product_formData pform" .
  show "\<forall>k. k \<notin> {''name'', ''category'', ''price'', ''stock'', ''supplier'', ''available''} \<longrightarrow>
            (handleFormSubmit_products pform editingId products ! i) k = (products ! i) k"
  proof (intro allI impI)
    fix k assume "k \<notin> {''name'', ''category'', ''price'', ''stock'', ''supplier'', ''available''}"
    then have "k \<notin> dom (product_formData pform)" unfolding dom_product_formData .
    then have "product_formData pform k = None" by (simp add: domIff)
    then show "(handleFormSubmit_products pform editingId products ! i) k = (products ! i) k"
      by (simp add: m map_add_def)
  qed
next
  assume a: "c_entityId cform \<noteq> []
      \<and> findIndex (\<lambda>c. loose_eq (get c ''id'') (JStr (c_entityId cform))) clients = Some j"
  then have r: "handleFormSubmit_clients cform clients ! j = clientData cform clients"
    by (intro client_update) simp_all
  then show "handleFormSubmit_clients cform clients ! j = clientData cform clients" .
  show "\<forall>k. k \<notin> {''id'', ''name'', ''email'', ''phone'', ''type'', ''city'', ''orders'',
                    ''address''} \<longrightarrow> (handleFormSubmit_clients cform clients ! j) k = None"
  proof (intro allI impI)
    fix k assume "k \<notin> {''id'', ''name'', ''email'', ''phone'', ''type'', ''city'', ''orders'',
                    ''address''}"
    then have "k \<notin> dom (clientData cform clients)" unfolding dom_clientData .
    then show "(handleFormSubmit_clients cform clients ! j) k = None"
      by (simp add: r domIff)
  qed
next
  assume a: "u_entityId uform \<noteq> []
      \<and> findIndex (\<lambda>u. loose_eq (get u ''id'') (JStr (u_entityId uform))) users = Some l"
  let ?d = "userData uform (parseInt (u_entityId uform)) (get (users ! l) ''createdAt'')"
  from a have r: "handleFormSubmit_users uform now users = Inr (users[l := ?d])"
    by (intro user_update) simp_all
  from a have l: "l < length users" using findIndex_Some by blast
  have "\<forall>k. k \<notin> {''id'', ''name'', ''email'', ''role'', ''status'', ''phone'', ''createdAt''} \<longrightarrow>
           (users[l := ?d] ! l) k = None"
  proof (intro allI impI)
    fix k assume "k \<notin> {''id'', ''name'', ''email'', ''role'', ''status'', ''phone'', ''createdAt''}"
    then have "k \<notin> dom ?d" unfolding dom_userData .
    then show "(users[l := ?d] ! l) k = None" using l by (simp add: domIff)
  qed
  moreover have "users[l := ?d] ! l = ?d" using l by simp
  ultimately show "\<exists>res. handleFormSubmit_users uform now users = Inr res
          \<and> res ! l = ?d
          \<and> (\<forall>k. k \<notin> {''id'', ''name'', ''email'', ''role'', ''status'', ''phone'',
                        ''createdAt''} \<longrightarrow> (res ! l) k = None)"
    using r by blast
qed


lemma form_literals:
  "parseFloat_str ''12'' = Fin 12" "parseInt10 ''5'' = Fin 5" "parseInt ''1'' = Fin 1"
  "parseInt ''3'' = Fin 3" "StringToNumber ''1'' = Fin 1" "StringToNumber ''3'' = Fin 3"
  "trim ''Pizza'' = ''Pizza''" "trim ''Roma'' = ''Roma''"
  by code_simp+

text \<open>
  Claim C8 says that only the order form merges the submitted fields over the stored
  record and that the product, client and user forms replace it, so that for those three
  a field absent from the form does not survive an update.  The product form merges as
  the order form does: a field \<open>notes\<close> of a stored product, which the product form never
  submits, is still there after the update, next to the new name.
\<close>

theorem product_update_merges_counterexample:
  "(handleFormSubmit_products
       \<lparr>p_name = ''Pizza'', p_category = ''Plat'', p_price = ''12'', p_stock = ''5'',
        p_supplier = ''Roma'', p_availability = ''Disponible''\<rparr>
       (JNum (Fin 1))
       [[''id'' \<mapsto> JNum (Fin 1), ''name'' \<mapsto> JStr ''Old'', ''notes'' \<mapsto> JStr ''keep'']] ! 0) ''notes''
     = Some (JStr ''keep'')
   \<and> product_formData
       \<lparr>p_name = ''Pizza'', p_category = ''Plat'', p_price = ''12'', p_stock = ''5'',
        p_supplier = ''Roma'', p_availability = ''Disponible''\<rparr> ''notes'' = None
   \<and> (handleFormSubmit_products
       \<lparr>p_name = ''Pizza'', p_category = ''Plat'', p_price = ''12'', p_stock = ''5'',
        p_supplier = ''Roma'', p_availability = ''Disponible''\<rparr>
       (JNum (Fin 1))
       [[''id'' \<mapsto> JNum (Fin 1), ''name'' \<mapsto> JStr ''Old'', ''notes'' \<mapsto> JStr ''keep'']] ! 0) ''name''
     = Some (JStr ''Pizza'')"
  by (simp add: handleFormSubmit_products_def product_formData_def product_form_valid_def
      Let_def get_def isNaN_def num_eq_def form_literals)

theorem update_merge_or_replace_witness:
  "(handleFormSubmit_products
       \<lparr>p_name = ''Pizza'', p_category = ''Plat'', p_price = ''12'', p_stock = ''5'',
        p_supplier = ''Roma'', p_availability = ''Disponible''\<rparr>
       (JNum (Fin 1))
       [[''id'' \<mapsto> JNum (Fin 1), ''name'' \<mapsto> JStr ''Old'', ''notes'' \<mapsto> JStr ''keep'']] ! 0) ''notes''
     = Some (JStr ''keep'')
   \<and> (handleFormSubmit_clients
       \<lparr>c_entityId = ''1'', c_name = ''Marie'', c_email = ''m@x.fr'', c_phone = ''06'',
        c_type = ''Particulier'', c_city = ''Paris'', c_orders = ''3'', c_address = ''Rue''\<rparr>
       [[''id'' \<mapsto> JNum (Fin 1), ''name'' \<mapsto> JStr ''Old'', ''createdAt'' \<mapsto> JStr ''2024-01-10'']] ! 0)
       ''createdAt'' = None
   \<and> (\<exists>res. handleFormSubmit_users
       \<lparr>u_entityId = ''1'', u_name = ''Jean'', u_email = ''j@x.fr'', u_role = ''Livreur'',
        u_status = ''Actif'', u_phone = ''06''\<rparr> ''2024-05-01''
       [[''id'' \<mapsto> JNum (Fin 1), ''name'' \<mapsto> JStr ''Old'', ''createdAt'' \<mapsto> JStr ''2024-02-10'',
         ''lastLogin'' \<mapsto> JStr ''2024-03-01'']] = Inr res
       \<and> (res ! 0) ''lastLogin'' = None
       \<and> (res ! 0) ''createdAt'' = Some (JStr ''2024-02-10''))"
proof -
  let ?pf = "\<lparr>p_name = ''Pizza'', p_category = ''Plat'', p_price = ''12'', p_stock = ''5'',
        p_supplier = ''Roma'', p_availability = ''Disponible''\<rparr>"
  let ?products = "[[''id'' \<mapsto> JNum (Fin 1), ''name'' \<mapsto> JStr ''Old'', ''notes'' \<mapsto> JStr ''keep'']]"
  let ?cf = "\<lparr>c_entityId = ''1'', c_name = ''Marie'', c_email = ''m@x.fr'', c_phone = ''06'',
        c_type = ''Particulier'', c_city = ''Paris'', c_orders = ''3'', c_address = ''Rue''\<rparr>"
  let ?clients = "[[''id'' \<mapsto> JNum (Fin 1), ''name'' \<mapsto> JStr ''Old'', ''createdAt'' \<mapsto> JStr ''2024-01-10'']]"
  let ?uf = "\<lparr>u_entityId = ''1'', u_name = ''Jean'', u_email = ''j@x.fr'', u_role = ''Livreur'',
        u_status = ''Actif'', u_phone = ''06''\<rparr>"
  let ?users = "[[''id'' \<mapsto> JNum (Fin 1), ''name'' \<mapsto> JStr ''Old'', ''createdAt'' \<mapsto> JStr ''2024-02-10'',
         ''lastLogin'' \<mapsto> JStr ''2024-03-01'']]"
  have hp: "truthy (JNum (Fin 1)) \<and> product_form_valid (product_formData ?pf)
      \<and> findIndex (\<lambda>item. strict_eq (get item ''id'') (JNum (Fin 1))) ?products = Some 0"
    by (simp add: product_formData_def product_form_valid_def get_def isNaN_def num_eq_def
        form_literals)
  have hc: "c_entityId ?cf \<noteq> []
      \<and> findIndex (\<lambda>c. loose_eq (get c ''id'') (JStr (c_entityId ?cf))) ?clients = Some 0"
    by (simp add: get_def num_eq_def form_literals)
  have hu: "u_entityId ?uf \<noteq> []
      \<and> findIndex (\<lambda>u. loose_eq (get u ''id'') (JStr (u_entityId ?uf))) ?users = Some 0"
    by (simp add: get_def num_eq_def form_literals)
  note th = update_merge_or_replace [where editingId = "JNum (Fin 1)" and pform = ?pf
      and products = ?products and i = 0 and cform = ?cf and clients = ?clients and j = 0
      and uform = ?uf and users = ?users and l = 0 and now = "''2024-05-01''"]
  have k1: "''notes'' \<notin> {''name'', ''category'', ''price'', ''stock'', ''supplier'', ''available''}"
    by simp
  have k2: "''createdAt'' \<notin> {''id'', ''name'', ''email'', ''phone'', ''type'', ''city'', ''orders'',
      ''address''}"
    by simp
  have k3: "''lastLogin'' \<notin> {''id'', ''name'', ''email'', ''role'', ''status'', ''phone'',
      ''createdAt''}"
    by simp
  have a: "(handleFormSubmit_products ?pf (JNum (Fin 1)) ?products ! 0) ''notes'' = (?products ! 0) ''notes''"
    using th [THEN conjunct1, THEN mp, OF hp, THEN conjunct2, THEN spec, THEN mp, OF k1] .
  have b: "(handleFormSubmit_clients ?cf ?clients ! 0) ''createdAt'' = None"
    using th [THEN conjunct2, THEN conjunct1, THEN mp, OF hc, THEN conjunct2, THEN spec, THEN mp,
        OF k2] .
  from th [THEN conjunct2, THEN conjunct2, THEN mp, OF hu] obtain res where
    r: "handleFormSubmit_users ?uf ''2024-05-01'' ?users = Inr res"
       "res ! 0 = userData ?uf (parseInt (u_entityId ?uf)) (get (?users ! 0) ''createdAt'')"
       "\<forall>k. k \<notin> {''id'', ''name'', ''email'', ''role'', ''status'', ''phone'', ''createdAt''}
           \<longrightarrow> (res ! 0) k = None"
    by blast
  have c1: "(res ! 0) ''lastLogin'' = None" using r(3) [THEN spec, THEN mp, OF k3] .
  have c2: "(res ! 0) ''createdAt'' = Some (JStr ''2024-02-10'')"
    by (simp add: r(2) userData_def get_def)
  from a have a': "(handleFormSubmit_products ?pf (JNum (Fin 1)) ?products ! 0) ''notes'' = Some (JStr ''keep'')"
    by simp
  show ?thesis using a' b r(1) c1 c2 by blast
qed

subsection \<open>Deliveries\<close>

lemma find_first_None: "findIndex p xs = None \<Longrightarrow> find_first p xs = None"
  by (induction xs) (auto split: if_splits)

lemma num_neg_int:
  "n = NaN \<or> (\<exists>z::int. n = Fin (of_int z)) \<Longrightarrow>
   num_neg n = NaN \<or> (\<exists>z::int. num_neg n = Fin (of_int z))"
proof (erule disjE)
  assume "n = NaN" then show ?thesis by simp
next
  assume "\<exists>z::int. n = Fin (of_int z)"
  then obtain z :: int where "n = Fin (of_int z)" by blast
  then have "num_neg n = Fin (of_int (- z))" by simp
  then show ?thesis by blast
qed

lemma signed_int:
  assumes "\<And>t. p t = NaN \<or> (\<exists>z::int. p t = Fin (of_int z))"
  shows "signed p s = NaN \<or> (\<exists>z::int. signed p s = Fin (of_int z))"
  using assms num_neg_int [OF assms]
  by (auto simp add: signed_def split: list.splits)

lemma parseInt_int: "parseInt s = NaN \<or> (\<exists>z::int. parseInt s = Fin (of_int z))"
  unfolding parseInt_def
proof (rule signed_int)
  fix t
  have nat: "\<exists>z::int. Fin (of_nat n) = Fin (of_int z)" for n :: nat
    by (rule exI [of _ "int n"]) simp
  show "(if starts_with t ''0x'' \<or> starts_with t ''0X''
         then let ds = takeWhile is_hex (drop 2 t)
              in if ds = [] then NaN else Fin (of_nat (digits_val 16 hex_val ds))
         else let ds = takeWhile is_digit t
              in if ds = [] then NaN else Fin (of_nat (digits_val 10 digit_val ds))) = NaN
       \<or> (\<exists>z::int. (if starts_with t ''0x'' \<or> starts_with t ''0X''
         then let ds = takeWhile is_hex (drop 2 t)
              in if ds = [] then NaN else Fin (of_nat (digits_val 16 hex_val ds))
         else let ds = takeWhile is_digit t
              in if ds = [] then NaN else Fin (of_nat (digits_val 10 digit_val ds))) = Fin (of_int z))"
    using nat by (simp add: Let_def)
qed

lemma delivery_create:
  assumes "d_entityId form = []"
  shows "handleFormSubmit_deliveries form now deliveries =
    Inr (deliveries @ [deliveryData form (generateId deliveries) (JStr now)])"
  using assms by (simp add: handleFormSubmit_deliveries_def)

lemma delivery_update:
  assumes "d_entityId form \<noteq> []"
    "findIndex (\<lambda>d. loose_eq (get d ''id'') (JStr (d_entityId form))) deliveries = Some i"
  shows "handleFormSubmit_deliveries form now deliveries =
    Inr (deliveries[i := deliveryData form (parseInt (d_entityId form)) (get (deliveries ! i) ''date'')])"
  using assms find_first_findIndex [OF assms(2)]
  by (simp add: handleFormSubmit_deliveries_def assign_at_def)

lemma delivery_update_missing:
  assumes "d_entityId form \<noteq> []"
    "findIndex (\<lambda>d. loose_eq (get d ''id'') (JStr (d_entityId form))) deliveries = None"
  shows "handleFormSubmit_deliveries form now deliveries = Inl TypeError"
  using assms find_first_None [OF assms(2)]
  by (simp add: handleFormSubmit_deliveries_def)

lemma deliveryData_fields:
  "deliveryData form ident date ''orderId'' = Some (JStr (d_orderId form))"
  "deliveryData form ident date ''duration'' = Some (JStr (d_duration form))"
  "deliveryData form ident date ''id'' = Some (JNum ident)"
  by (simp_all add: deliveryData_def)

text \<open>
  Claim C10.  A delivery created through the deliveries form is appended with its
  orderId and duration equal to the raw strings of the form and its id equal to the
  number \<open>generateId\<close> returns; a delivery updated through the form replaces the record
  found by its id, again with the raw strings as orderId and duration and with the id
  \<open>parseInt\<close> of the hidden field, which is an integer (or NaN when the field holds no
  digits).  When no delivery has the id the handler throws and stores nothing.  The
  stored orderId is a string while order ids are numbers: it equals the order id 3 under
  \<open>==\<close> and not under \<open>===\<close>.
\<close>

theorem delivery_field_types:
  "(d_entityId form = [] \<longrightarrow>
      (\<exists>r. handleFormSubmit_deliveries form now deliveries = Inr (deliveries @ [r])
          \<and> r ''orderId'' = Some (JStr (d_orderId form))
          \<and> r ''duration'' = Some (JStr (d_duration form))
          \<and> r ''id'' = Some (JNum (generateId deliveries))))
   \<and> (d_entityId form \<noteq> []
      \<and> findIndex (\<lambda>d. loose_eq (get d ''id'') (JStr (d_entityId form))) deliveries = Some i \<longrightarrow>
      (\<exists>r. handleFormSubmit_deliveries form now deliveries = Inr (deliveries[i := r])
          \<and> r ''orderId'' = Some (JStr (d_orderId form))
          \<and> r ''duration'' = Some (JStr (d_duration form))
          \<and> r ''id'' = Some (JNum (parseInt (d_entityId form)))))
   \<and> (d_entityId form \<noteq> []
      \<and> findIndex (\<lambda>d. loose_eq (get d ''id'') (JStr (d_entityId form))) deliveries = None \<longrightarrow>
      handleFormSubmit_deliveries form now deliveries = Inl TypeError)
   \<and> (parseInt (d_entityId form) = NaN
       \<or> (\<exists>z::int. parseInt (d_entityId form) = Fin (of_int z)))
   \<and> loose_eq (JStr ''3'') (JNum (Fin 3))
   \<and> \<not> strict_eq (JStr ''3'') (JNum (Fin 3))"
proof (intro conjI impI)
  assume "d_entityId form = []"
  from delivery_create [OF this]
  show "\<exists>r. handleFormSubmit_deliveries form now deliveries = Inr (deliveries @ [r])
          \<and> r ''orderId'' = Some (JStr (d_orderId form))
          \<and> r ''duration'' = Some (JStr (d_duration form))
          \<and> r ''id'' = Some (JNum (generateId deliveries))"
    using deliveryData_fields by blast
next
  assume "d_entityId form \<noteq> []
      \<and> findIndex (\<lambda>d. loose_eq (get d ''id'') (JStr (d_entityId form))) deliveries = Some i"
  then have "handleFormSubmit_deliveries form now deliveries =
    Inr (deliveries[i := deliveryData form (parseInt (d_entityId form)) (get (deliveries ! i) ''date'')])"
    by (intro delivery_update) simp_all
  then show "\<exists>r. handleFormSubmit_deliveries form now deliveries = Inr (deliveries[i := r])
          \<and> r ''orderId'' = Some (JStr (d_orderId form))
          \<and> r ''duration'' = Some (JStr (d_duration form))
          \<and> r ''id'' = Some (JNum (parseInt (d_entityId form)))"
    using deliveryData_fields by blast
next
  assume "d_entityId form \<noteq> []
      \<and> findIndex (\<lambda>d. loose_eq (get d ''id'') (JStr (d_entityId form))) deliveries = None"
  then show "handleFormSubmit_deliveries form now deliveries = Inl TypeError"
    by (intro delivery_update_missing) simp_all
next
  show "parseInt (d_entityId form) = NaN \<or> (\<exists>z::int. parseInt (d_entityId form) = Fin (of_int z))"
    by (rule parseInt_int)
next
  show "loose_eq (JStr ''3'') (JNum (Fin 3))" by (simp add: num_eq_def form_literals)
next
  show "\<not> strict_eq (JStr ''3'') (JNum (Fin 3))" by simp
qed


theorem delivery_field_types_witness:
  "(\<exists>r. handleFormSubmit_deliveries
          \<lparr>d_entityId = [], d_orderId = ''3'', d_driver = ''Jean'', d_status = ''En cours'',
           d_duration = ''25'', d_address = ''Paris'', d_notes = []\<rparr> ''2024-05-01''
          [[''id'' \<mapsto> JNum (Fin 1), ''orderId'' \<mapsto> JNum (Fin 1)]]
        = Inr ([[''id'' \<mapsto> JNum (Fin 1), ''orderId'' \<mapsto> JNum (Fin 1)]] @ [r])
      \<and> r ''orderId'' = Some (JStr ''3'') \<and> r ''duration'' = Some (JStr ''25'')
      \<and> r ''id'' = Some (JNum (Fin 2)))
   \<and> (\<exists>r. handleFormSubmit_deliveries
          \<lparr>d_entityId = ''1'', d_orderId = ''3'', d_driver = ''Jean'', d_status = ''En cours'',
           d_duration = ''25'', d_address = ''Paris'', d_notes = []\<rparr> ''2024-05-01''
          [[''id'' \<mapsto> JNum (Fin 1), ''orderId'' \<mapsto> JNum (Fin 1)]]
        = Inr ([[''id'' \<mapsto> JNum (Fin 1), ''orderId'' \<mapsto> JNum (Fin 1)]][0 := r])
      \<and> r ''orderId'' = Some (JStr ''3'') \<and> r ''duration'' = Some (JStr ''25'')
      \<and> r ''id'' = Some (JNum (Fin 1)))"
proof -
  let ?new = "\<lparr>d_entityId = [], d_orderId = ''3'', d_driver = ''Jean'', d_status = ''En cours'',
           d_duration = ''25'', d_address = ''Paris'', d_notes = []\<rparr>"
  let ?edit = "\<lparr>d_entityId = ''1'', d_orderId = ''3'', d_driver = ''Jean'', d_status = ''En cours'',
           d_duration = ''25'', d_address = ''Paris'', d_notes = []\<rparr>"
  let ?ds = "[[''id'' \<mapsto> JNum (Fin 1), ''orderId'' \<mapsto> JNum (Fin 1)]]"
  have e: "d_entityId ?new = []" by simp
  have g: "generateId ?ds = Fin 2"
    by (simp add: generateId_def math_max_def num_max_def get_def to_double_literals)
  have u: "d_entityId ?edit \<noteq> []
      \<and> findIndex (\<lambda>d. loose_eq (get d ''id'') (JStr (d_entityId ?edit))) ?ds = Some 0"
    by (simp add: get_def num_eq_def form_literals)
  have p: "parseInt (d_entityId ?edit) = Fin 1" by (simp add: form_literals)
  have f: "d_orderId ?new = ''3''" "d_duration ?new = ''25''" "d_orderId ?edit = ''3''"
    "d_duration ?edit = ''25''"
    by simp_all
  note c = delivery_field_types [where form = ?new and now = "''2024-05-01''" and deliveries = ?ds,
      THEN conjunct1, THEN mp, OF e, unfolded g f]
  note d = delivery_field_types [where form = ?edit and now = "''2024-05-01''" and deliveries = ?ds
      and i = 0, THEN conjunct2, THEN conjunct1, THEN mp, OF u, unfolded p f]
  show ?thesis using c d by (rule conjI)
qed

end
